theory Spec2Isabelle
  imports Complex_Main
begin

section \<open>Values and errors\<close>

text \<open>
  The two scripts, \<^verbatim>\<open>blender_robot_link.py\<close> (Link Stage) and \<^verbatim>\<open>v1.py\<close> (Retarget
  Stage), receive JSON text lines from a serial device and write rotations into the pose
  bones of an armature. A decoded JSON document is a value of type \<open>json\<close>; Python's
  \<open>float\<close> is modelled by \<open>real\<close> (rounding and the special values are not
  represented), Python's \<open>int\<close> by \<open>int\<close>. An object keeps its members in
  textual order; a later member of the same name overrides an earlier one, as in the
  dictionary that \<^verbatim>\<open>json.loads\<close> builds.
\<close>

datatype json =
    JNull
  | JBool bool
  | JInt int
  | JNum real
  | JStr string
  | JArr "json list"
  | JObj "(string \<times> json) list"

datatype py_error =
    TypeError | ValueError | IndexError | KeyError | AttributeError

text \<open>
  Keys of the module-level dictionary \<^verbatim>\<open>latest_data\<close>. Python identifies the keys
  \<^verbatim>\<open>1\<close>, \<^verbatim>\<open>1.0\<close> and \<^verbatim>\<open>True\<close>; lists and dictionaries are unhashable.
\<close>

datatype pykey = KNone | KNum real | KStr string

fun py_key :: "json \<Rightarrow> pykey option" where
  "py_key JNull = Some KNone"
| "py_key (JBool b) = Some (KNum (if b then 1 else 0))"
| "py_key (JInt i) = Some (KNum (real_of_int i))"
| "py_key (JNum r) = Some (KNum r)"
| "py_key (JStr s) = Some (KStr s)"
| "py_key (JArr xs) = None"
| "py_key (JObj kvs) = None"

definition int_key :: "int \<Rightarrow> pykey" where
  "int_key i = KNum (real_of_int i)"

definition dict_get :: "(string \<times> json) list \<Rightarrow> string \<Rightarrow> json option" where
  "dict_get kvs k = map_of (rev kvs) k"

text \<open>
  Conversion of a Python number to a C double, as the constructor of
  \<^verbatim>\<open>mathutils.Quaternion\<close> performs it on each component: integers, floats and booleans
  convert, except an integer that rounds beyond the range of a double. The constructor
  reports every failed conversion as a type error.
\<close>

definition py_float :: "json \<Rightarrow> py_error + real" where
  "py_float v =
     (case v of
        JInt i \<Rightarrow> (if \<bar>i\<bar> \<ge> 2 ^ 1024 - 2 ^ 970 then Inl TypeError else Inr (real_of_int i))
      | JNum r \<Rightarrow> Inr r
      | JBool b \<Rightarrow> Inr (if b then 1 else 0)
      | _ \<Rightarrow> Inl TypeError)"

text \<open>Unary minus, \<^verbatim>\<open>-z\<close>.\<close>

definition py_neg :: "json \<Rightarrow> py_error + json" where
  "py_neg v =
     (case v of
        JInt i \<Rightarrow> Inr (JInt (- i))
      | JNum r \<Rightarrow> Inr (JNum (- r))
      | JBool b \<Rightarrow> Inr (JInt (if b then - 1 else 0))
      | _ \<Rightarrow> Inl TypeError)"

text \<open>Subscription \<^verbatim>\<open>v[i]\<close> with a non-negative integer literal.\<close>

definition subscript :: "json \<Rightarrow> nat \<Rightarrow> py_error + json" where
  "subscript v i =
     (case v of
        JArr xs \<Rightarrow> (if i < length xs then Inr (xs ! i) else Inl IndexError)
      | JStr s \<Rightarrow> (if i < length s then Inr (JStr [s ! i]) else Inl IndexError)
      | JObj kvs \<Rightarrow> Inl KeyError
      | _ \<Rightarrow> Inl TypeError)"

text \<open>
  The unpacking assignment \<^verbatim>\<open>w, x, y, z = v\<close>: the value must be iterable and yield
  exactly four items. A string yields its characters, a dictionary its keys, each once,
  in the order of first appearance.
\<close>

definition unpack4 :: "json \<Rightarrow> py_error + (json \<times> json \<times> json \<times> json)" where
  "unpack4 v =
     (case v of
        JArr xs \<Rightarrow>
          (case xs of [a, b, c, d] \<Rightarrow> Inr (a, b, c, d) | _ \<Rightarrow> Inl ValueError)
      | JStr s \<Rightarrow>
          (case s of [a, b, c, d] \<Rightarrow> Inr (JStr [a], JStr [b], JStr [c], JStr [d])
           | _ \<Rightarrow> Inl ValueError)
      | JObj kvs \<Rightarrow>
          (case rev (remdups (rev (map fst kvs))) of
             [a, b, c, d] \<Rightarrow> Inr (JStr a, JStr b, JStr c, JStr d)
           | _ \<Rightarrow> Inl ValueError)
      | _ \<Rightarrow> Inl TypeError)"

section \<open>Rotations\<close>

record quat =
  qw :: real
  qx :: real
  qy :: real
  qz :: real

record euler =
  ex :: real
  ey :: real
  ez :: real

text \<open>\<^verbatim>\<open>mathutils.Quaternion((a, b, c, d))\<close>: four numbers, stored as given.\<close>

definition Quaternion :: "json \<times> json \<times> json \<times> json \<Rightarrow> py_error + quat" where
  "Quaternion t =
     (case t of (a, b, c, d) \<Rightarrow>
        (case py_float a of Inl e \<Rightarrow> Inl e | Inr fa \<Rightarrow>
        (case py_float b of Inl e \<Rightarrow> Inl e | Inr fb \<Rightarrow>
        (case py_float c of Inl e \<Rightarrow> Inl e | Inr fc \<Rightarrow>
        (case py_float d of Inl e \<Rightarrow> Inl e | Inr fd \<Rightarrow>
           Inr \<lparr>qw = fa, qx = fb, qy = fc, qz = fd\<rparr>)))))"

text \<open>
  The quaternion product \<^verbatim>\<open>a @ b\<close> of the host's mathematics library (the Hamilton
  product) and \<^verbatim>\<open>Euler.to_quaternion()\<close> for the order \<^verbatim>\<open>'XYZ'\<close>, the only order
  the offsets of the Link Stage use. Both are written over the reals.
\<close>

definition quat_mul :: "quat \<Rightarrow> quat \<Rightarrow> quat" where
  "quat_mul a b =
     \<lparr>qw = qw a * qw b - qx a * qx b - qy a * qy b - qz a * qz b,
      qx = qw a * qx b + qx a * qw b + qy a * qz b - qz a * qy b,
      qy = qw a * qy b + qy a * qw b + qz a * qx b - qx a * qz b,
      qz = qw a * qz b + qz a * qw b + qx a * qy b - qy a * qx b\<rparr>"

definition to_quaternion :: "euler \<Rightarrow> quat" where
  "to_quaternion e =
     (let ti = ex e / 2; tj = ey e / 2; th = ez e / 2;
          ci = cos ti; cj = cos tj; ch = cos th;
          si = sin ti; sj = sin tj; sh = sin th;
          cc = ci * ch; cs = ci * sh; sc = si * ch; ss = si * sh
      in \<lparr>qw = cj * cc + sj * ss,
          qx = cj * sc - sj * cs,
          qy = cj * ss + sj * cc,
          qz = cj * cs - sj * sc\<rparr>)"

definition radians :: "real \<Rightarrow> real" where
  "radians d = d * pi / 180"

section \<open>The host and the script state\<close>

text \<open>
  A pose bone carries its rotation in three representations, of which the mode selects
  one: an Euler triple, a quaternion, and an axis with an angle (angle first). An object
  of the host has a type and, when it is an armature, a pose with named bones
  (\<^verbatim>\<open>obj.pose\<close> is \<^verbatim>\<open>None\<close> otherwise).
\<close>

type_synonym axis_angle = "real \<times> real \<times> real \<times> real"

record pose_bone =
  rotation_mode :: string
  rotation_euler :: euler
  rotation_quaternion :: quat
  rotation_axis_angle :: axis_angle

text \<open>
  The numeric routines of the host and of its mathematics library that the scripts
  reach but do not contain. They are parameters of the model: \<open>to_euler\<close> is
  \<^verbatim>\<open>Quaternion.to_euler(order)\<close>; the others are the conversions the host applies to
  the stored rotation of a bone when its mode is assigned.
\<close>

record host =
  to_euler :: "string \<Rightarrow> quat \<Rightarrow> euler"
  normalize_qt :: "quat \<Rightarrow> quat"
  quat_to_eulO :: "string \<Rightarrow> quat \<Rightarrow> euler"
  axis_angle_to_eulO :: "string \<Rightarrow> axis_angle \<Rightarrow> euler"
  eulO_to_quat :: "string \<Rightarrow> euler \<Rightarrow> quat"
  axis_angle_to_quat :: "axis_angle \<Rightarrow> quat"

definition euler_modes :: "string list" where
  "euler_modes = [''XYZ'', ''XZY'', ''YXZ'', ''YZX'', ''ZXY'', ''ZYX'']"

text \<open>
  The assignment \<^verbatim>\<open>p_bone.rotation_mode = new\<close>. Before the mode changes, the host
  brings the representation of the new mode up to date from the representation of the
  old one: to an Euler mode from the axis and angle or from the quaternion, which it
  normalises in place; to the quaternion from the axis and angle or from the Euler
  triple. Between two Euler modes, and when the mode stays, nothing is converted. Only
  the two kinds of mode the scripts assign are modelled.
\<close>

definition set_rotation_mode :: "host \<Rightarrow> string \<Rightarrow> pose_bone \<Rightarrow> pose_bone" where
  "set_rotation_mode h new p =
     (let old = rotation_mode p;
          p1 =
            (if new \<in> set euler_modes then
               (if old = ''AXIS_ANGLE'' then
                  p\<lparr>rotation_euler := axis_angle_to_eulO h new (rotation_axis_angle p)\<rparr>
                else if old = ''QUATERNION'' then
                  p\<lparr>rotation_euler := quat_to_eulO h new (normalize_qt h (rotation_quaternion p)),
                    rotation_quaternion := normalize_qt h (rotation_quaternion p)\<rparr>
                else p)
             else if new = ''QUATERNION'' then
               (if old = ''AXIS_ANGLE'' then
                  p\<lparr>rotation_quaternion := axis_angle_to_quat h (rotation_axis_angle p)\<rparr>
                else if old \<in> set euler_modes then
                  p\<lparr>rotation_quaternion := eulO_to_quat h old (rotation_euler p)\<rparr>
                else p)
             else p)
      in p1\<lparr>rotation_mode := new\<rparr>)"

record bobject =
  obj_type :: string
  pose :: "(string \<rightharpoonup> pose_bone) option"

text \<open>
  The state threaded through every operation: the module globals (\<open>latest_data\<close>,
  \<open>is_running\<close>, \<open>packet_count\<close>), the attributes of the operator instance
  (\<open>timer\<close>, \<open>armature_name\<close>), and what the scripts reach of the host: the objects
  by name, the name of the active object, the registered timers and modal handlers, the
  receiver threads started and the messages reported to the user.
\<close>

record world =
  latest_data :: "pykey \<rightharpoonup> json"
  is_running :: bool
  packet_count :: nat
  timer :: "nat option"
  armature_name :: string
  objects :: "string \<rightharpoonup> bobject"
  active_object :: "string option"
  wm_timers :: "nat list"
  modal_handlers :: nat
  threads_started :: nat
  reports :: "(string \<times> string) list"

datatype op_result = PASS_THROUGH | CANCELLED | RUNNING_MODAL

section \<open>The serial receiver\<close>

text \<open>
  \<^verbatim>\<open>read_serial_thread\<close> is the same in both scripts, up to a debug print. One
  iteration of its loop observes one of: no bytes waiting; \<^verbatim>\<open>ser.in_waiting\<close> raising
  (caught by the outer handler, which clears the run flag); \<^verbatim>\<open>ser.readline()\<close> or
  \<^verbatim>\<open>.decode('utf-8')\<close> raising (caught by the inner handler); or a decoded line.
  Text is a list of 8-bit characters: code points above U+00FF are not represented.
  \<^verbatim>\<open>json.loads\<close> is a parameter \<open>loads\<close> of the model; \<open>None\<close> stands for any
  exception it raises.
\<close>

datatype rx_event = NoData | DeviceError | ReadError | DecodeError | Line string

definition py_isspace :: "char \<Rightarrow> bool" where
  "py_isspace c \<longleftrightarrow>
     (of_char c :: nat) \<in> {9, 10, 11, 12, 13, 28, 29, 30, 31, 32, 133, 160}"

definition strip :: "string \<Rightarrow> string" where
  "strip s = rev (dropWhile py_isspace (rev (dropWhile py_isspace s)))"

definition startswith :: "string \<Rightarrow> string \<Rightarrow> bool" where
  "startswith s p \<longleftrightarrow> take (length p) s = p"

definition endswith :: "string \<Rightarrow> string \<Rightarrow> bool" where
  "endswith s p \<longleftrightarrow> length p \<le> length s \<and> drop (length s - length p) s = p"

text \<open>
  Lines 109 to 111 of \<^verbatim>\<open>v1.py\<close>: membership tests for the two keys, then the store
  and the count. On anything but a dictionary the test or the subscription raises, or
  the test is false; an unhashable id raises at the store. All of it is swallowed.
\<close>

definition store_packet :: "json \<Rightarrow> world \<Rightarrow> world" where
  "store_packet data w =
     (case data of
        JObj kvs \<Rightarrow>
          (case dict_get kvs ''id'' of
             None \<Rightarrow> w
           | Some i \<Rightarrow>
               (case dict_get kvs ''q'' of
                  None \<Rightarrow> w
                | Some q \<Rightarrow>
                    (case py_key i of
                       None \<Rightarrow> w
                     | Some k \<Rightarrow>
                         w\<lparr>latest_data := (latest_data w)(k \<mapsto> q),
                           packet_count := packet_count w + 1\<rparr>)))
      | _ \<Rightarrow> w)"

definition handle_line :: "(string \<Rightarrow> json option) \<Rightarrow> string \<Rightarrow> world \<Rightarrow> world" where
  "handle_line loads raw w =
     (let line = strip raw
      in if startswith line ''{'' \<and> endswith line ''}''
         then (case loads line of None \<Rightarrow> w | Some data \<Rightarrow> store_packet data w)
         else w)"

text \<open>The body of the loop for the events that do not leave it.\<close>

fun rx_body :: "(string \<Rightarrow> json option) \<Rightarrow> rx_event \<Rightarrow> world \<Rightarrow> world" where
  "rx_body loads (Line raw) w = handle_line loads raw w"
| "rx_body loads ev w = w"

text \<open>
  The loop \<^verbatim>\<open>while is_running\<close> over the observations of its iterations. The list
  is a finite prefix of a run: the loop itself ends only when the flag is cleared.
\<close>

fun rx_loop :: "(string \<Rightarrow> json option) \<Rightarrow> rx_event list \<Rightarrow> world \<Rightarrow> world" where
  "rx_loop loads [] w = w"
| "rx_loop loads (ev # evs) w =
     (if is_running w
      then (if ev = DeviceError then w\<lparr>is_running := False\<rparr>
            else rx_loop loads evs (rx_body loads ev w))
      else w)"

definition read_serial_thread ::
  "(string \<Rightarrow> json option) \<Rightarrow> bool \<Rightarrow> rx_event list \<Rightarrow> world \<Rightarrow> world" where
  "read_serial_thread loads port_opens evs w =
     (if port_opens then rx_loop loads evs w else w\<lparr>is_running := False\<rparr>)"

text \<open>
  The packet a raw line carries, if any: the key and the value that
  \<open>handle_line\<close> stores for it. This is a reading aid for the statements below;
  \<open>handle_line_packet_of\<close> relates it to the code.
\<close>

definition packet_of :: "(string \<Rightarrow> json option) \<Rightarrow> string \<Rightarrow> (pykey \<times> json) option" where
  "packet_of loads raw =
     (if startswith (strip raw) ''{'' \<and> endswith (strip raw) ''}''
      then (case loads (strip raw) of
              Some (JObj kvs) \<Rightarrow>
                (case (dict_get kvs ''id'', dict_get kvs ''q'') of
                   (Some i, Some q) \<Rightarrow> map_option (\<lambda>k. (k, q)) (py_key i)
                 | _ \<Rightarrow> None)
            | _ \<Rightarrow> None)
      else None)"

text \<open>
  A finite excerpt of \<^verbatim>\<open>json.loads\<close>, for evaluating the model on concrete lines: it
  agrees with \<^verbatim>\<open>json.loads\<close> on the three lines listed and is used on no other text
  that reaches the parser.
\<close>

definition json_loads_sample :: "string \<Rightarrow> json option" where
  \<open>json_loads_sample s =
     (if s = ''{"id": 0, "q": [1.0, 0.0, 0.0, 0.0]}''
      then Some (JObj [(''id'', JInt 0), (''q'', JArr [JNum 1, JNum 0, JNum 0, JNum 0])])
      else if s = ''{"id": 1, "q": [1.0, 0.0, 0.0, 0.0]}''
      then Some (JObj [(''id'', JInt 1), (''q'', JArr [JNum 1, JNum 0, JNum 0, JNum 0])])
      else if s = ''{"id": 0, "q": [1, 2, 3]}''
      then Some (JObj [(''id'', JInt 0), (''q'', JArr [JInt 1, JInt 2, JInt 3])])
      else None)\<close>

section \<open>Link Stage: \<^verbatim>\<open>blender_robot_link.py\<close>\<close>

definition BONE_MAP :: "(int \<times> string) list" where
  "BONE_MAP = [(0, ''UpperArm.008''), (1, ''UpperArm.021'')]"

definition BONE_OFFSETS :: "(int \<times> euler) list" where
  "BONE_OFFSETS = [(0, \<lparr>ex = 0, ey = 0, ez = 0\<rparr>), (1, \<lparr>ex = 0, ey = 0, ez = 0\<rparr>)]"

text \<open>\<^verbatim>\<open>BONE_OFFSETS.get(sensor_id, mathutils.Euler((0,0,0)))\<close>\<close>

definition bone_offset :: "int \<Rightarrow> euler" where
  "bone_offset sensor_id =
     (case map_of BONE_OFFSETS sensor_id of
        None \<Rightarrow> \<lparr>ex = 0, ey = 0, ez = 0\<rparr>
      | Some e \<Rightarrow> e)"

text \<open>
  Lines 124 to 132: from the stored value to the rotation for the bone. The unpacking,
  the negation and the constructor can each raise.
\<close>

definition link_rotation :: "int \<Rightarrow> json \<Rightarrow> py_error + quat" where
  "link_rotation sensor_id raw =
     (case unpack4 raw of
        Inl e \<Rightarrow> Inl e
      | Inr (w, x, y, z) \<Rightarrow>
          (case py_neg z of
             Inl e \<Rightarrow> Inl e
           | Inr nz \<Rightarrow>
               (case Quaternion (w, y, x, nz) of
                  Inl e \<Rightarrow> Inl e
                | Inr sensor_quat \<Rightarrow>
                    Inr (quat_mul sensor_quat (to_quaternion (bone_offset sensor_id))))))"

text \<open>Lines 135 and 136, the two assignments to the bone.\<close>

definition link_write :: "host \<Rightarrow> quat \<Rightarrow> pose_bone \<Rightarrow> pose_bone" where
  "link_write h final_rot p_bone =
     (set_rotation_mode h ''QUATERNION'' p_bone)\<lparr>rotation_quaternion := final_rot\<rparr>"

text \<open>
  The loop over \<^verbatim>\<open>BONE_MAP.items()\<close> (lines 119 to 140). The object is mutated in
  place, so an exception leaves the writes made for earlier sensors: the error result
  carries the object as it is when the exception is raised.
\<close>

fun link_bones ::
  "host \<Rightarrow> (pykey \<rightharpoonup> json) \<Rightarrow> (int \<times> string) list \<Rightarrow> bobject
     \<Rightarrow> (py_error \<times> bobject) + bobject" where
  "link_bones h ld [] obj = Inr obj"
| "link_bones h ld ((sensor_id, bone_name) # rest) obj =
     (case ld (int_key sensor_id) of
        None \<Rightarrow> link_bones h ld rest obj
      | Some raw \<Rightarrow>
          (case pose obj of
             None \<Rightarrow> Inl (AttributeError, obj)
           | Some bones \<Rightarrow>
               (case bones bone_name of
                  None \<Rightarrow> link_bones h ld rest obj
                | Some p_bone \<Rightarrow>
                    (case link_rotation sensor_id raw of
                       Inl e \<Rightarrow> Inl (e, obj)
                     | Inr final_rot \<Rightarrow>
                         link_bones h ld rest
                           (obj\<lparr>pose := Some (bones(bone_name \<mapsto> link_write h final_rot p_bone))\<rparr>)))))"

text \<open>
  \<^verbatim>\<open>cancel\<close> of the Link Stage (lines 176 to 182). Removing a timer that was never
  created (\<^verbatim>\<open>self._timer\<close> still \<^verbatim>\<open>None\<close>) is rejected by the host.
\<close>

definition cancel_link :: "world \<Rightarrow> (py_error \<times> world) + (op_result \<times> world)" where
  "cancel_link w =
     (let w1 = w\<lparr>is_running := False\<rparr>
      in case timer w1 of
           None \<Rightarrow> Inl (TypeError, w1)
         | Some t \<Rightarrow> Inr (CANCELLED, w1\<lparr>wm_timers := removeAll t (wm_timers w1)\<rparr>))"

definition modal_link ::
  "host \<Rightarrow> string \<Rightarrow> world \<Rightarrow> (py_error \<times> world) + (op_result \<times> world)" where
  "modal_link h event_type w =
     (if event_type = ''ESC'' then cancel_link w
      else if event_type = ''TIMER'' then
        (case objects w (armature_name w) of
           None \<Rightarrow> cancel_link w
         | Some obj \<Rightarrow>
             (case link_bones h (latest_data w) BONE_MAP obj of
                Inl (e, obj') \<Rightarrow> Inl (e, w\<lparr>objects := (objects w)(armature_name w \<mapsto> obj')\<rparr>)
              | Inr obj' \<Rightarrow>
                  Inr (PASS_THROUGH, w\<lparr>objects := (objects w)(armature_name w \<mapsto> obj')\<rparr>)))
      else Inr (PASS_THROUGH, w))"

text \<open>
  \<^verbatim>\<open>execute\<close> (lines 147 to 174). The active object is looked up by its name; its
  type decides whether it is taken. The fallback is whatever object is named
  \<^verbatim>\<open>"Armature"\<close>.
\<close>

definition active_obj :: "world \<Rightarrow> (string \<times> bobject) option" where
  "active_obj w =
     (case active_object w of
        None \<Rightarrow> None
      | Some n \<Rightarrow> map_option (\<lambda>ob. (n, ob)) (objects w n))"

definition resolve_armature :: "world \<Rightarrow> string option" where
  "resolve_armature w =
     (case active_obj w of
        Some (n, ob) \<Rightarrow>
          (if obj_type ob = ''ARMATURE'' then Some n
           else (case objects w ''Armature'' of None \<Rightarrow> None | Some fb \<Rightarrow> Some ''Armature''))
      | None \<Rightarrow>
          (case objects w ''Armature'' of None \<Rightarrow> None | Some fb \<Rightarrow> Some ''Armature''))"

definition fresh_timer :: "nat list \<Rightarrow> nat" where
  "fresh_timer ts = Suc (fold max ts 0)"

text \<open>
  What both scripts do once the armature is resolved: set the flag, start the receiver
  thread, add the timer and the modal handler.
\<close>

definition start_running :: "string \<Rightarrow> world \<Rightarrow> world" where
  "start_running name w =
     (let t = fresh_timer (wm_timers w)
      in w\<lparr>armature_name := name,
           is_running := True,
           threads_started := threads_started w + 1,
           timer := Some t,
           wm_timers := t # wm_timers w,
           modal_handlers := modal_handlers w + 1\<rparr>)"

definition execute_link :: "world \<Rightarrow> op_result \<times> world" where
  "execute_link w =
     (if \<not> is_running w then
        (case resolve_armature w of
           None \<Rightarrow>
             (CANCELLED,
              w\<lparr>reports := reports w @ [(''ERROR'', ''Please SELECT your Robot Armature first!'')]\<rparr>)
         | Some name \<Rightarrow>
             (RUNNING_MODAL,
              (start_running name w)
                \<lparr>reports := reports w @ [(''INFO'', ''Robot Link Started on COM3'')]\<rparr>))
      else (RUNNING_MODAL, w))"

section \<open>Retarget Stage: \<^verbatim>\<open>v1.py\<close>\<close>

text \<open>\<^verbatim>\<open>JOINT_MAP\<close> in its order of iteration: joint name, bone name, axis.\<close>

definition JOINT_MAP :: "(string \<times> string \<times> string) list" where
  "JOINT_MAP =
     [(''Base'', ''UpperArm.008'', ''Z''),
      (''Shoulder'', ''UpperArm.015'', ''X''),
      (''Elbow'', ''UpperArm.018'', ''X''),
      (''Wrist'', ''UpperArm.019'', ''Y''),
      (''Wrist_2'', ''UpperArm.020'', ''X''),
      (''Gripper'', ''UpperArm.021'', ''Y'')]"

definition INITIAL_POSE :: "(string \<times> real) list" where
  "INITIAL_POSE =
     [(''Base'', 0), (''Shoulder'', 0), (''Elbow'', 0),
      (''Wrist'', 0), (''Wrist_2'', 0), (''Gripper'', 0)]"

definition IMU_SHOULDER_ID :: int where
  "IMU_SHOULDER_ID = 1"

definition IMU_FOREARM_ID :: int where
  "IMU_FOREARM_ID = 0"

text \<open>
  Lines 137 and 138 (and 141, 142): four subscriptions, then the constructor.
\<close>

definition raw_quaternion :: "json \<Rightarrow> py_error + quat" where
  "raw_quaternion q_raw =
     (case subscript q_raw 0 of Inl e \<Rightarrow> Inl e | Inr a \<Rightarrow>
     (case subscript q_raw 1 of Inl e \<Rightarrow> Inl e | Inr b \<Rightarrow>
     (case subscript q_raw 2 of Inl e \<Rightarrow> Inl e | Inr c \<Rightarrow>
     (case subscript q_raw 3 of Inl e \<Rightarrow> Inl e | Inr d \<Rightarrow>
        Quaternion (a, b, c, d)))))"

text \<open>
  Lines 153 to 169: the six target angles from the two Euler triples, as the dictionary
  \<^verbatim>\<open>target_angles\<close> in insertion order.
\<close>

definition target_angles :: "euler \<Rightarrow> euler \<Rightarrow> (string \<times> real) list" where
  "target_angles imu1_euler imu2_euler =
     (let imu1_yaw = ez imu1_euler;
          imu1_pitch = ey imu1_euler;
          imu1_roll = ex imu1_euler;
          imu2_pitch = ey imu2_euler;
          imu2_roll = ex imu2_euler
      in [(''Base'', imu1_yaw),
          (''Shoulder'', imu1_pitch),
          (''Elbow'', imu2_pitch - imu1_pitch),
          (''Wrist'', imu2_roll - imu1_roll),
          (''Wrist_2'', 0),
          (''Gripper'', imu2_roll)])"

text \<open>The chain \<^verbatim>\<open>if axis == 'X' ... elif 'Y' ... elif 'Z'\<close> on \<^verbatim>\<open>rotation_euler\<close>.\<close>

definition set_axis :: "string \<Rightarrow> real \<Rightarrow> euler \<Rightarrow> euler" where
  "set_axis axis angle e =
     (if axis = ''X'' then e\<lparr>ex := angle\<rparr>
      else if axis = ''Y'' then e\<lparr>ey := angle\<rparr>
      else if axis = ''Z'' then e\<lparr>ez := angle\<rparr>
      else e)"

text \<open>
  Lines 179 to 189 (and 236 to 243): the assignment of the mode, then of the one axis of
  the Euler triple the bone holds after it.
\<close>

definition joint_write :: "host \<Rightarrow> string \<Rightarrow> real \<Rightarrow> pose_bone \<Rightarrow> pose_bone" where
  "joint_write h axis angle p_bone =
     (let p1 = set_rotation_mode h ''XYZ'' p_bone
      in p1\<lparr>rotation_euler := set_axis axis angle (rotation_euler p1)\<rparr>)"

text \<open>
  The loop over \<^verbatim>\<open>JOINT_MAP.items()\<close> of \<^verbatim>\<open>modal\<close> (lines 172 to 189). The mode
  is written before \<^verbatim>\<open>target_angles[joint_name]\<close> is subscripted.
\<close>

fun apply_joints ::
  "host \<Rightarrow> (string \<times> real) list \<Rightarrow> (string \<times> string \<times> string) list \<Rightarrow> bobject
     \<Rightarrow> (py_error \<times> bobject) + bobject" where
  "apply_joints h ta [] obj = Inr obj"
| "apply_joints h ta ((joint_name, bone_name, axis) # rest) obj =
     (case pose obj of
        None \<Rightarrow> Inl (AttributeError, obj)
      | Some bones \<Rightarrow>
          (case bones bone_name of
             None \<Rightarrow> apply_joints h ta rest obj
           | Some p_bone \<Rightarrow>
               (case map_of ta joint_name of
                  None \<Rightarrow>
                    Inl (KeyError,
                         obj\<lparr>pose := Some (bones(bone_name \<mapsto> set_rotation_mode h ''XYZ'' p_bone))\<rparr>)
                | Some angle \<Rightarrow>
                    apply_joints h ta rest
                      (obj\<lparr>pose := Some (bones(bone_name \<mapsto> joint_write h axis angle p_bone))\<rparr>))))"

text \<open>
  The loop of \<^verbatim>\<open>cancel\<close> (lines 226 to 243):
  \<^verbatim>\<open>INITIAL_POSE.get(joint_name, 0.0)\<close> in degrees, converted by \<^verbatim>\<open>radians\<close>.
\<close>

definition home_angle :: "string \<Rightarrow> real" where
  "home_angle joint_name =
     radians (case map_of INITIAL_POSE joint_name of None \<Rightarrow> 0 | Some d \<Rightarrow> d)"

fun reset_joints ::
  "host \<Rightarrow> (string \<times> string \<times> string) list \<Rightarrow> bobject
     \<Rightarrow> (py_error \<times> bobject) + bobject" where
  "reset_joints h [] obj = Inr obj"
| "reset_joints h ((joint_name, bone_name, axis) # rest) obj =
     (case pose obj of
        None \<Rightarrow> Inl (AttributeError, obj)
      | Some bones \<Rightarrow>
          (case bones bone_name of
             None \<Rightarrow> reset_joints h rest obj
           | Some p_bone \<Rightarrow>
               reset_joints h rest
                 (obj\<lparr>pose :=
                    Some (bones(bone_name \<mapsto> joint_write h axis (home_angle joint_name) p_bone))\<rparr>)))"

definition cancel_v1 :: "host \<Rightarrow> world \<Rightarrow> (py_error \<times> world) + (op_result \<times> world)" where
  "cancel_v1 h w =
     (let w1 = w\<lparr>is_running := False\<rparr>
      in case timer w1 of
           None \<Rightarrow> Inl (TypeError, w1)
         | Some t \<Rightarrow>
             (let w2 = w1\<lparr>wm_timers := removeAll t (wm_timers w1)\<rparr>
              in case objects w2 (armature_name w2) of
                   None \<Rightarrow> Inr (CANCELLED, w2)
                 | Some obj \<Rightarrow>
                     (case reset_joints h JOINT_MAP obj of
                        Inl (e, obj') \<Rightarrow>
                          Inl (e, w2\<lparr>objects := (objects w2)(armature_name w2 \<mapsto> obj')\<rparr>)
                      | Inr obj' \<Rightarrow>
                          Inr (CANCELLED,
                               w2\<lparr>objects := (objects w2)(armature_name w2 \<mapsto> obj')\<rparr>))))"

text \<open>
  \<^verbatim>\<open>modal\<close> (lines 125 to 191). \<^verbatim>\<open>Quaternion.to_euler\<close> takes the order and the
  quaternion. The readings and their conversions come before the first write.
\<close>

definition modal_v1 ::
  "host \<Rightarrow> string \<Rightarrow> world \<Rightarrow> (py_error \<times> world) + (op_result \<times> world)" where
  "modal_v1 h event_type w =
     (if event_type = ''ESC'' then cancel_v1 h w
      else if event_type = ''TIMER'' then
        (case objects w (armature_name w) of
           None \<Rightarrow> Inr (PASS_THROUGH, w)
         | Some obj \<Rightarrow>
             (case (latest_data w (int_key IMU_SHOULDER_ID),
                    latest_data w (int_key IMU_FOREARM_ID)) of
                (Some q1_raw, Some q2_raw) \<Rightarrow>
                  (case raw_quaternion q1_raw of
                     Inl e \<Rightarrow> Inl (e, w)
                   | Inr q1 \<Rightarrow>
                       (case raw_quaternion q2_raw of
                          Inl e \<Rightarrow> Inl (e, w)
                        | Inr q2 \<Rightarrow>
                            (case apply_joints h
                                    (target_angles (to_euler h ''ZYX'' q1) (to_euler h ''ZYX'' q2))
                                    JOINT_MAP obj of
                               Inl (e, obj') \<Rightarrow>
                                 Inl (e, w\<lparr>objects := (objects w)(armature_name w \<mapsto> obj')\<rparr>)
                             | Inr obj' \<Rightarrow>
                                 Inr (PASS_THROUGH,
                                      w\<lparr>objects := (objects w)(armature_name w \<mapsto> obj')\<rparr>))))
              | _ \<Rightarrow> Inr (PASS_THROUGH, w)))
      else Inr (PASS_THROUGH, w))"

definition execute_v1 :: "world \<Rightarrow> op_result \<times> world" where
  "execute_v1 w =
     (if \<not> is_running w then
        (case resolve_armature w of
           None \<Rightarrow>
             (CANCELLED, w\<lparr>reports := reports w @ [(''ERROR'', ''Select Armature first!'')]\<rparr>)
         | Some name \<Rightarrow> (RUNNING_MODAL, start_running name w))
      else (RUNNING_MODAL, w))"

section \<open>A concrete rig and state\<close>

text \<open>
  An armature named \<^verbatim>\<open>Armature\<close> with the six bones the scripts name, each in
  quaternion mode with a non-zero Euler triple, and the state in which \<^verbatim>\<open>execute\<close>
  leaves the scripts when that armature is active: flag set, one timer, no data yet.
\<close>

definition sample_bone :: pose_bone where
  "sample_bone =
     \<lparr>rotation_mode = ''QUATERNION'',
      rotation_euler = \<lparr>ex = 1, ey = 2, ez = 3\<rparr>,
      rotation_quaternion = \<lparr>qw = 1, qx = 0, qy = 0, qz = 0\<rparr>,
      rotation_axis_angle = (0, 0, 1, 0)\<rparr>"

definition sample_bones :: "string \<rightharpoonup> pose_bone" where
  "sample_bones =
     map_of [(''UpperArm.008'', sample_bone), (''UpperArm.015'', sample_bone),
             (''UpperArm.018'', sample_bone), (''UpperArm.019'', sample_bone),
             (''UpperArm.020'', sample_bone), (''UpperArm.021'', sample_bone)]"

definition sample_rig :: bobject where
  "sample_rig = \<lparr>obj_type = ''ARMATURE'', pose = Some sample_bones\<rparr>"

definition sample_world :: world where
  "sample_world =
     \<lparr>latest_data = Map.empty,
      is_running = True,
      packet_count = 0,
      timer = Some 1,
      armature_name = ''Armature'',
      objects = [''Armature'' \<mapsto> sample_rig],
      active_object = Some ''Armature'',
      wm_timers = [1],
      modal_handlers = 1,
      threads_started = 1,
      reports = []\<rparr>"

text \<open>
  Both sensors hold the identity rotation, as after the two valid lines of
  \<open>json_loads_sample\<close>.
\<close>

definition sample_data :: "pykey \<rightharpoonup> json" where
  "sample_data =
     [KNum 0 \<mapsto> JArr [JNum 1, JNum 0, JNum 0, JNum 0],
      KNum 1 \<mapsto> JArr [JNum 1, JNum 0, JNum 0, JNum 0]]"

definition sample_world_data :: world where
  "sample_world_data = sample_world\<lparr>latest_data := sample_data\<rparr>"

text \<open>Sensor 0 alone holds a reading with four different components.\<close>

definition sample_world_reading :: world where
  "sample_world_reading =
     sample_world\<lparr>latest_data := [KNum 0 \<mapsto> JArr [JNum 1, JNum 2, JNum 3, JNum 4]]\<rparr>"

text \<open>
  The shoulder sensor (id 1) and the forearm sensor (id 0) hold readings whose eight
  components all differ; and the shoulder sensor alone holds its reading.
\<close>

definition sample_world_both :: world where
  "sample_world_both =
     sample_world\<lparr>latest_data :=
       [KNum 1 \<mapsto> JArr [JNum 1, JNum 2, JNum 3, JNum 4],
        KNum 0 \<mapsto> JArr [JNum 5, JNum 7, JNum 11, JNum 13]]\<rparr>"

definition sample_world_shoulder :: world where
  "sample_world_shoulder =
     sample_world\<lparr>latest_data := [KNum 1 \<mapsto> JArr [JNum 1, JNum 2, JNum 3, JNum 4]]\<rparr>"

text \<open>The same armature with every bone already in the mode \<^verbatim>\<open>'XYZ'\<close>.\<close>

definition sample_bone_euler :: pose_bone where
  "sample_bone_euler = sample_bone\<lparr>rotation_mode := ''XYZ''\<rparr>"

definition sample_bones_euler :: "string \<rightharpoonup> pose_bone" where
  "sample_bones_euler =
     map_of [(''UpperArm.008'', sample_bone_euler), (''UpperArm.015'', sample_bone_euler),
             (''UpperArm.018'', sample_bone_euler), (''UpperArm.019'', sample_bone_euler),
             (''UpperArm.020'', sample_bone_euler), (''UpperArm.021'', sample_bone_euler)]"

definition sample_rig_euler :: bobject where
  "sample_rig_euler = \<lparr>obj_type = ''ARMATURE'', pose = Some sample_bones_euler\<rparr>"

definition sample_world_euler :: world where
  "sample_world_euler = sample_world_both\<lparr>objects := [''Armature'' \<mapsto> sample_rig_euler]\<rparr>"

text \<open>
  Stand-ins for the numeric routines where a closed statement needs them. They are
  exact on the identity rotation: zero angles, the unit quaternion unchanged. On any
  other quaternion the Euler conversions return its vector part, so that a closed
  statement can tell the three components apart; \<open>to_euler\<close> does so in the order
  \<^verbatim>\<open>'ZYX'\<close> only and returns zero angles in any other order, so that a closed
  statement also depends on the order the script asks for. The second stand-in returns,
  in the order \<^verbatim>\<open>'ZYX'\<close>, the Euler triples of the numeric scenario of section 8 of
  the specification for the two readings of \<open>sample_world_both\<close>: yaw 30, pitch 10,
  roll 0 degrees for the shoulder, pitch 25, roll 5 degrees for the forearm.
\<close>

definition host_probe :: host where
  "host_probe =
     \<lparr>to_euler = (\<lambda>order q. if order = ''ZYX'' then \<lparr>ex = qx q, ey = qy q, ez = qz q\<rparr>
                             else \<lparr>ex = 0, ey = 0, ez = 0\<rparr>),
      normalize_qt = (\<lambda>q. q),
      quat_to_eulO = (\<lambda>order q. \<lparr>ex = qx q, ey = qy q, ez = qz q\<rparr>),
      axis_angle_to_eulO = (\<lambda>order aa. \<lparr>ex = 0, ey = 0, ez = 0\<rparr>),
      eulO_to_quat = (\<lambda>order e. to_quaternion e),
      axis_angle_to_quat = (\<lambda>aa. \<lparr>qw = 1, qx = 0, qy = 0, qz = 0\<rparr>)\<rparr>"

definition host_scenario :: host where
  "host_scenario =
     host_probe\<lparr>to_euler :=
       (\<lambda>order q. if order \<noteq> ''ZYX'' then \<lparr>ex = 0, ey = 0, ez = 0\<rparr>
                   else if qw q = 1
                   then \<lparr>ex = radians 0, ey = radians 10, ez = radians 30\<rparr>
                   else \<lparr>ex = radians 5, ey = radians 25, ez = radians 0\<rparr>)\<rparr>"

text \<open>An idle state with a mesh as the only object, which is also the active one.\<close>

definition idle_world_no_rig :: world where
  "idle_world_no_rig =
     \<lparr>latest_data = Map.empty,
      is_running = False,
      packet_count = 0,
      timer = None,
      armature_name = [],
      objects = [''Cube'' \<mapsto> \<lparr>obj_type = ''MESH'', pose = None\<rparr>],
      active_object = Some ''Cube'',
      wm_timers = [],
      modal_handlers = 0,
      threads_started = 0,
      reports = []\<rparr>"

section \<open>Notions used in the statements\<close>

text \<open>The component of an Euler triple on a named axis.\<close>

definition euler_axis :: "string \<Rightarrow> euler \<Rightarrow> real" where
  "euler_axis axis e = (if axis = ''X'' then ex e else if axis = ''Y'' then ey e else ez e)"

text \<open>The pose bone \<open>bn\<close> of the object named \<open>n\<close>, if both exist.\<close>

definition bone_at :: "world \<Rightarrow> string \<Rightarrow> string \<Rightarrow> pose_bone option" where
  "bone_at w n bn =
     (case objects w n of
        None \<Rightarrow> None
      | Some ob \<Rightarrow> (case pose ob of None \<Rightarrow> None | Some bones \<Rightarrow> bones bn))"

text \<open>
  For each joint of \<open>JOINT_MAP\<close>, in order: the mode of its bone in the object
  named \<open>n\<close> and the component of the bone's Euler triple on the joint's axis, or
  \<open>None\<close> when the bone does not exist.
\<close>

definition pose_angles :: "world \<Rightarrow> string \<Rightarrow> (string \<times> (string \<times> real) option) list" where
  "pose_angles w n =
     map (\<lambda>(joint_name, bone_name, axis).
            (joint_name,
             map_option (\<lambda>p. (rotation_mode p, euler_axis axis (rotation_euler p)))
               (bone_at w n bone_name)))
         JOINT_MAP"

text \<open>
  A list of exactly four values that convert to a double: integers, floats or booleans,
  an integer smaller in magnitude than \<open>2 ^ 1024 - 2 ^ 970\<close>.
\<close>

definition is_number :: "json \<Rightarrow> bool" where
  "is_number v = (case py_float v of Inl e \<Rightarrow> False | Inr r \<Rightarrow> True)"

definition is_rotation4 :: "json \<Rightarrow> bool" where
  "is_rotation4 v = (case v of JArr xs \<Rightarrow> length xs = 4 \<and> list_all is_number xs | _ \<Rightarrow> False)"

text \<open>
  A run of the whole system: iterations of the receiver loop interleaved with the events
  the host dispatches to \<^verbatim>\<open>modal\<close>. The run ends when \<^verbatim>\<open>modal\<close> raises or returns
  \<^verbatim>\<open>{'CANCELLED'}\<close>. \<open>outcome\<close> is the state reached either way.
\<close>

datatype sys_event = Rx rx_event | Ui string

fun run ::
  "(string \<Rightarrow> world \<Rightarrow> (py_error \<times> world) + (op_result \<times> world))
     \<Rightarrow> (string \<Rightarrow> json option) \<Rightarrow> sys_event list \<Rightarrow> world \<Rightarrow> (py_error \<times> world) + world" where
  "run modal loads [] w = Inr w"
| "run modal loads (Rx ev # evs) w = run modal loads evs (rx_loop loads [ev] w)"
| "run modal loads (Ui t # evs) w =
     (case modal t w of
        Inl x \<Rightarrow> Inl x
      | Inr (r, w') \<Rightarrow> (if r = CANCELLED then Inr w' else run modal loads evs w'))"

definition outcome :: "(py_error \<times> 'a) + 'a \<Rightarrow> 'a" where
  "outcome r = (case r of Inl (e, a) \<Rightarrow> a | Inr a \<Rightarrow> a)"

text \<open>The state in which a call of \<^verbatim>\<open>modal\<close> or \<^verbatim>\<open>cancel\<close> ends, raised or returned.\<close>

definition reached :: "(py_error \<times> world) + (op_result \<times> world) \<Rightarrow> world" where
  "reached r = (case r of Inl (e, w) \<Rightarrow> w | Inr (x, w) \<Rightarrow> w)"

text \<open>An event of a run that stores a packet under the key \<open>k\<close>.\<close>

definition carries :: "(string \<Rightarrow> json option) \<Rightarrow> pykey \<Rightarrow> sys_event \<Rightarrow> bool" where
  "carries loads k ev =
     (case ev of
        Rx (Line raw) \<Rightarrow> (case packet_of loads raw of None \<Rightarrow> False | Some (k', q) \<Rightarrow> k' = k)
      | _ \<Rightarrow> False)"

text \<open>The state after the line \<^verbatim>\<open>{"id": 0, "q": [1, 2, 3]}\<close> has been received.\<close>

definition short_packet_world :: world where
  \<open>short_packet_world =
     rx_loop json_loads_sample [Line ''{"id": 0, "q": [1, 2, 3]}''] sample_world\<close>

section \<open>The receiver: what a line does to the store\<close>

lemma handle_line_packet_of:
  "handle_line loads raw w =
     (case packet_of loads raw of
        None \<Rightarrow> w
      | Some (k, q) \<Rightarrow>
          w\<lparr>latest_data := (latest_data w)(k \<mapsto> q), packet_count := packet_count w + 1\<rparr>)"
  by (auto simp: handle_line_def packet_of_def store_packet_def Let_def
           split: option.splits json.splits)


lemma sample_packet_0:
  \<open>packet_of json_loads_sample ''{"id": 0, "q": [1.0, 0.0, 0.0, 0.0]}''
     = Some (KNum 0, JArr [JNum 1, JNum 0, JNum 0, JNum 0])\<close>
  by (simp add: packet_of_def strip_def py_isspace_def startswith_def endswith_def
        json_loads_sample_def dict_get_def)


lemma sample_packet_short:
  \<open>packet_of json_loads_sample ''{"id": 0, "q": [1, 2, 3]}''
     = Some (KNum 0, JArr [JInt 1, JInt 2, JInt 3])\<close>
  by (simp add: packet_of_def strip_def py_isspace_def startswith_def endswith_def
        json_loads_sample_def dict_get_def)



section \<open>The joint loops of the Retarget Stage\<close>

lemma apply_joints_bones:
  assumes "pose obj = Some bones"
    and "distinct (map (\<lambda>x. fst (snd x)) jm)"
    and "\<forall>(j, b, a) \<in> set jm. map_of ta j \<noteq> None"
  shows "\<exists>bones'. apply_joints hst ta jm obj = Inr (obj\<lparr>pose := Some bones'\<rparr>)
           \<and> (\<forall>bn. bn \<notin> set (map (\<lambda>x. fst (snd x)) jm) \<longrightarrow> bones' bn = bones bn)
           \<and> (\<forall>j b a ang. (j, b, a) \<in> set jm \<longrightarrow> map_of ta j = Some ang
                 \<longrightarrow> bones' b = map_option (joint_write hst a ang) (bones b))"
  using assms
proof (induction jm arbitrary: obj bones)
  case Nil
  then show ?case by (intro exI [of _ bones]) simp
next
  case (Cons x jm)
  obtain j0 b0 a0 where x: "x = (j0, b0, a0)" by (cases x) auto
  from Cons.prems x have nin: "b0 \<notin> set (map (\<lambda>x. fst (snd x)) jm)"
    and dist: "distinct (map (\<lambda>x. fst (snd x)) jm)"
    and ta: "\<forall>(j, b, a) \<in> set jm. map_of ta j \<noteq> None"
    by auto
  from Cons.prems x obtain ang0 where ang0: "map_of ta j0 = Some ang0" by auto
  have rest_ne: "\<And>j b a. (j, b, a) \<in> set jm \<Longrightarrow> b \<noteq> b0"
    using nin by force
  show ?case
  proof (cases "bones b0")
    case None
    from Cons.IH [OF Cons.prems(1) dist ta] obtain bones' where
      r: "apply_joints hst ta jm obj = Inr (obj\<lparr>pose := Some bones'\<rparr>)"
      and f: "\<forall>bn. bn \<notin> set (map (\<lambda>x. fst (snd x)) jm) \<longrightarrow> bones' bn = bones bn"
      and u: "\<forall>j b a ang. (j, b, a) \<in> set jm \<longrightarrow> map_of ta j = Some ang
                 \<longrightarrow> bones' b = map_option (joint_write hst a ang) (bones b)"
      by blast
    have "bones' b0 = None" using f nin None by simp
    with r f u None Cons.prems(1) x show ?thesis
      by (intro exI [of _ bones']) auto
  next
    case (Some pb)
    let ?bones1 = "bones(b0 \<mapsto> joint_write hst a0 ang0 pb)"
    let ?obj1 = "obj\<lparr>pose := Some ?bones1\<rparr>"
    have p1: "pose ?obj1 = Some ?bones1" by simp
    from Cons.IH [OF p1 dist ta] obtain bones' where
      r: "apply_joints hst ta jm ?obj1 = Inr (?obj1\<lparr>pose := Some bones'\<rparr>)"
      and f: "\<forall>bn. bn \<notin> set (map (\<lambda>x. fst (snd x)) jm) \<longrightarrow> bones' bn = ?bones1 bn"
      and u: "\<forall>j b a ang. (j, b, a) \<in> set jm \<longrightarrow> map_of ta j = Some ang
                 \<longrightarrow> bones' b = map_option (joint_write hst a ang) (?bones1 b)"
      by blast
    have b0: "bones' b0 = Some (joint_write hst a0 ang0 pb)" using f nin by simp
    have "apply_joints hst ta (x # jm) obj = Inr (obj\<lparr>pose := Some bones'\<rparr>)"
      using r Some ang0 Cons.prems(1) x by simp
    moreover have "\<forall>bn. bn \<notin> set (map (\<lambda>x. fst (snd x)) (x # jm)) \<longrightarrow> bones' bn = bones bn"
      using f x by simp
    moreover have "\<forall>j b a ang. (j, b, a) \<in> set (x # jm) \<longrightarrow> map_of ta j = Some ang
                 \<longrightarrow> bones' b = map_option (joint_write hst a ang) (bones b)"
      using u b0 Some ang0 x rest_ne by auto
    ultimately show ?thesis by blast
  qed
qed

lemma reset_joints_apply:
  "\<forall>(j, b, a) \<in> set jm. map_of ta j = Some (home_angle j)
     \<Longrightarrow> reset_joints hst jm obj = apply_joints hst ta jm obj"
  by (induction jm arbitrary: obj) (auto split: option.splits)

lemma JOINT_MAP_distinct: "distinct (map (\<lambda>x. fst (snd x)) JOINT_MAP)"
  by (simp add: JOINT_MAP_def)

lemma target_angles_total:
  "\<forall>(j, b, a) \<in> set JOINT_MAP. map_of (target_angles e1 e2) j \<noteq> None"
  by (simp add: JOINT_MAP_def target_angles_def Let_def)

lemma modal_v1_tick:
  assumes obj: "objects w (armature_name w) = Some obj"
    and bones: "pose obj = Some bones"
    and r1: "latest_data w (int_key IMU_SHOULDER_ID) = Some r1"
    and r2: "latest_data w (int_key IMU_FOREARM_ID) = Some r2"
    and q1: "raw_quaternion r1 = Inr q1"
    and q2: "raw_quaternion r2 = Inr q2"
  shows "\<exists>bones'.
           modal_v1 hst ''TIMER'' w =
             Inr (PASS_THROUGH,
                  w\<lparr>objects := (objects w)(armature_name w \<mapsto> obj\<lparr>pose := Some bones'\<rparr>)\<rparr>)
           \<and> (\<forall>bn. bn \<notin> set (map (\<lambda>x. fst (snd x)) JOINT_MAP) \<longrightarrow> bones' bn = bones bn)
           \<and> (\<forall>j b a ang. (j, b, a) \<in> set JOINT_MAP
                 \<longrightarrow> map_of (target_angles (to_euler hst ''ZYX'' q1) (to_euler hst ''ZYX'' q2)) j = Some ang
                 \<longrightarrow> bones' b = map_option (joint_write hst a ang) (bones b))"
proof -
  from apply_joints_bones [OF bones JOINT_MAP_distinct target_angles_total]
  obtain bones' where
    r: "apply_joints hst (target_angles (to_euler hst ''ZYX'' q1) (to_euler hst ''ZYX'' q2)) JOINT_MAP obj
          = Inr (obj\<lparr>pose := Some bones'\<rparr>)"
    and f: "\<forall>bn. bn \<notin> set (map (\<lambda>x. fst (snd x)) JOINT_MAP) \<longrightarrow> bones' bn = bones bn"
    and u: "\<forall>j b a ang. (j, b, a) \<in> set JOINT_MAP
              \<longrightarrow> map_of (target_angles (to_euler hst ''ZYX'' q1) (to_euler hst ''ZYX'' q2)) j = Some ang
              \<longrightarrow> bones' b = map_option (joint_write hst a ang) (bones b)"
    by blast
  have "modal_v1 hst ''TIMER'' w =
          Inr (PASS_THROUGH,
               w\<lparr>objects := (objects w)(armature_name w \<mapsto> obj\<lparr>pose := Some bones'\<rparr>)\<rparr>)"
    using obj r1 r2 q1 q2 r by (simp add: modal_v1_def)
  with f u show ?thesis by blast
qed

lemma modal_v1_gate:
  assumes "latest_data w (int_key IMU_SHOULDER_ID) = None
             \<or> latest_data w (int_key IMU_FOREARM_ID) = None"
  shows "modal_v1 hst ''TIMER'' w = Inr (PASS_THROUGH, w)"
  using assms by (auto simp: modal_v1_def split: option.splits)

lemma cancel_v1_reset:
  assumes t: "timer w = Some t"
    and obj: "objects w (armature_name w) = Some obj"
    and bones: "pose obj = Some bones"
  shows "\<exists>bones'.
           cancel_v1 hst w =
             Inr (CANCELLED,
                  w\<lparr>is_running := False,
                    wm_timers := removeAll t (wm_timers w),
                    objects := (objects w)(armature_name w \<mapsto> obj\<lparr>pose := Some bones'\<rparr>)\<rparr>)
           \<and> (\<forall>bn. bn \<notin> set (map (\<lambda>x. fst (snd x)) JOINT_MAP) \<longrightarrow> bones' bn = bones bn)
           \<and> (\<forall>j b a. (j, b, a) \<in> set JOINT_MAP
                 \<longrightarrow> bones' b = map_option (joint_write hst a (home_angle j)) (bones b))"
proof -
  let ?ta = "map (\<lambda>(j, b, a). (j, home_angle j)) JOINT_MAP"
  have ta: "\<forall>(j, b, a) \<in> set JOINT_MAP. map_of ?ta j = Some (home_angle j)"
    by (simp add: JOINT_MAP_def)
  then have ta': "\<forall>(j, b, a) \<in> set JOINT_MAP. map_of ?ta j \<noteq> None" by auto
  from apply_joints_bones [OF bones JOINT_MAP_distinct ta']
  obtain bones' where
    r: "apply_joints hst ?ta JOINT_MAP obj = Inr (obj\<lparr>pose := Some bones'\<rparr>)"
    and f: "\<forall>bn. bn \<notin> set (map (\<lambda>x. fst (snd x)) JOINT_MAP) \<longrightarrow> bones' bn = bones bn"
    and u: "\<forall>j b a ang. (j, b, a) \<in> set JOINT_MAP \<longrightarrow> map_of ?ta j = Some ang
              \<longrightarrow> bones' b = map_option (joint_write hst a ang) (bones b)"
    by blast
  have r': "reset_joints hst JOINT_MAP obj = Inr (obj\<lparr>pose := Some bones'\<rparr>)"
    using reset_joints_apply [OF ta] r by simp
  have "cancel_v1 hst w =
          Inr (CANCELLED,
               w\<lparr>is_running := False,
                 wm_timers := removeAll t (wm_timers w),
                 objects := (objects w)(armature_name w \<mapsto> obj\<lparr>pose := Some bones'\<rparr>)\<rparr>)"
    using t obj r' by (simp add: cancel_v1_def Let_def)
  moreover have "\<forall>j b a. (j, b, a) \<in> set JOINT_MAP
                 \<longrightarrow> bones' b = map_option (joint_write hst a (home_angle j)) (bones b)"
    using u ta by blast
  ultimately show ?thesis using f by blast
qed

section \<open>The Retarget Stage on a tick\<close>

lemma bone_at_upd:
  "bone_at (w\<lparr>objects := (objects w)(n \<mapsto> obj\<lparr>pose := Some bones'\<rparr>)\<rparr>) n b = bones' b"
  by (simp add: bone_at_def)

lemma sample_raw_quaternion:
  "raw_quaternion (JArr [JNum 1, JNum 0, JNum 0, JNum 0]) = Inr \<lparr>qw = 1, qx = 0, qy = 0, qz = 0\<rparr>"
  by (simp add: raw_quaternion_def subscript_def Quaternion_def py_float_def)

lemma set_axis_frame:
  assumes "a \<in> {''X'', ''Y'', ''Z''}"
  shows "euler_axis a (set_axis a ang e) = ang"
    and "\<forall>a' \<in> {''X'', ''Y'', ''Z''}. a' \<noteq> a \<longrightarrow> euler_axis a' (set_axis a ang e) = euler_axis a' e"
  using assms by (auto simp: euler_axis_def set_axis_def)

lemma JOINT_MAP_axes: "(j, b, a) \<in> set JOINT_MAP \<Longrightarrow> a \<in> {''X'', ''Y'', ''Z''}"
  by (auto simp: JOINT_MAP_def)

lemma sample_tick_hyps:
  "objects sample_world_data (armature_name sample_world_data) = Some sample_rig"
  "pose sample_rig = Some sample_bones"
  "latest_data sample_world_data (int_key IMU_SHOULDER_ID)
     = Some (JArr [JNum 1, JNum 0, JNum 0, JNum 0])"
  "latest_data sample_world_data (int_key IMU_FOREARM_ID)
     = Some (JArr [JNum 1, JNum 0, JNum 0, JNum 0])"
  by (simp_all add: sample_world_data_def sample_world_def sample_rig_def sample_data_def
        int_key_def IMU_SHOULDER_ID_def IMU_FOREARM_ID_def)

section \<open>Stop\<close>

lemma cancel_v1_latest_data:
  "cancel_v1 hst (w\<lparr>latest_data := ld\<rparr>) =
     map_sum (map_prod id (\<lambda>w'. w'\<lparr>latest_data := ld\<rparr>))
             (map_prod id (\<lambda>w'. w'\<lparr>latest_data := ld\<rparr>)) (cancel_v1 hst w)"
  by (simp add: cancel_v1_def Let_def split: option.splits sum.splits)

lemma INITIAL_POSE_total: "(j, b, a) \<in> set JOINT_MAP \<Longrightarrow> \<exists>d. map_of INITIAL_POSE j = Some d"
  by (auto simp: JOINT_MAP_def INITIAL_POSE_def)

text \<open>
  C7. Stop. In the Retarget Stage, with the timer of the running operator and the
  armature resolved, \<^verbatim>\<open>cancel\<close> clears the flag, removes the timer and writes every
  joint of \<open>JOINT_MAP\<close> whose bone the armature has once: the mode, and on the
  joint's axis the angle that \<open>INITIAL_POSE\<close> gives for the joint in degrees, converted
  by \<open>radians\<close>, whatever the component held before. The store plays no part: stop
  commutes with any replacement of \<open>latest_data\<close>. The \<^verbatim>\<open>ESC\<close> event is this
  \<^verbatim>\<open>cancel\<close>. In the Link Stage \<^verbatim>\<open>cancel\<close> leaves every object as it is.
\<close>

theorem stop_resets_home:
  "(timer w = Some t \<and> objects w (armature_name w) = Some obj \<and> pose obj = Some bones
    \<longrightarrow> (\<exists>bones'.
           cancel_v1 hst w =
             Inr (CANCELLED,
                  w\<lparr>is_running := False,
                    wm_timers := removeAll t (wm_timers w),
                    objects := (objects w)(armature_name w \<mapsto> obj\<lparr>pose := Some bones'\<rparr>)\<rparr>)
           \<and> (\<forall>(j, b, a) \<in> set JOINT_MAP. \<forall>p_bone. bones b = Some p_bone
                \<longrightarrow> (\<exists>d. map_of INITIAL_POSE j = Some d
                         \<and> bones' b = Some (joint_write hst a (radians d) p_bone)
                         \<and> euler_axis a (rotation_euler (joint_write hst a (radians d) p_bone))
                             = radians d))))
   \<and> cancel_v1 hst (w\<lparr>latest_data := ld\<rparr>) =
       map_sum (map_prod id (\<lambda>w'. w'\<lparr>latest_data := ld\<rparr>))
               (map_prod id (\<lambda>w'. w'\<lparr>latest_data := ld\<rparr>)) (cancel_v1 hst w)
   \<and> modal_v1 hst ''ESC'' w = cancel_v1 hst w
   \<and> modal_link hst ''ESC'' w = cancel_link w
   \<and> objects (reached (cancel_link w)) = objects w"
proof (intro conjI impI)
  assume h: "timer w = Some t \<and> objects w (armature_name w) = Some obj \<and> pose obj = Some bones"
  with cancel_v1_reset [of w t obj bones] obtain bones' where
    r: "cancel_v1 hst w =
             Inr (CANCELLED,
                  w\<lparr>is_running := False,
                    wm_timers := removeAll t (wm_timers w),
                    objects := (objects w)(armature_name w \<mapsto> obj\<lparr>pose := Some bones'\<rparr>)\<rparr>)"
    and u: "\<forall>j b a. (j, b, a) \<in> set JOINT_MAP
                 \<longrightarrow> bones' b = map_option (joint_write hst a (home_angle j)) (bones b)"
    by blast
  have "\<forall>(j, b, a) \<in> set JOINT_MAP. \<forall>p_bone. bones b = Some p_bone
                \<longrightarrow> (\<exists>d. map_of INITIAL_POSE j = Some d
                         \<and> bones' b = Some (joint_write hst a (radians d) p_bone)
                         \<and> euler_axis a (rotation_euler (joint_write hst a (radians d) p_bone))
                             = radians d)"
  proof clarify
    fix j b a p_bone
    assume m: "(j, b, a) \<in> set JOINT_MAP" and b: "bones b = Some p_bone"
    from INITIAL_POSE_total [OF m] obtain d where d: "map_of INITIAL_POSE j = Some d" ..
    then have "home_angle j = radians d" by (simp add: home_angle_def)
    with u m b have "bones' b = Some (joint_write hst a (radians d) p_bone)" by simp
    moreover have "euler_axis a (rotation_euler (joint_write hst a (radians d) p_bone)) = radians d"
      using set_axis_frame(1) [OF JOINT_MAP_axes [OF m]] by (simp add: joint_write_def Let_def)
    ultimately show "\<exists>d. map_of INITIAL_POSE j = Some d
                         \<and> bones' b = Some (joint_write hst a (radians d) p_bone)
                         \<and> euler_axis a (rotation_euler (joint_write hst a (radians d) p_bone))
                             = radians d"
      using d by blast
  qed
  with r show "\<exists>bones'.
           cancel_v1 hst w =
             Inr (CANCELLED,
                  w\<lparr>is_running := False,
                    wm_timers := removeAll t (wm_timers w),
                    objects := (objects w)(armature_name w \<mapsto> obj\<lparr>pose := Some bones'\<rparr>)\<rparr>)
           \<and> (\<forall>(j, b, a) \<in> set JOINT_MAP. \<forall>p_bone. bones b = Some p_bone
                \<longrightarrow> (\<exists>d. map_of INITIAL_POSE j = Some d
                         \<and> bones' b = Some (joint_write hst a (radians d) p_bone)
                         \<and> euler_axis a (rotation_euler (joint_write hst a (radians d) p_bone))
                             = radians d))"
    by blast
next
  show "cancel_v1 hst (w\<lparr>latest_data := ld\<rparr>) =
       map_sum (map_prod id (\<lambda>w'. w'\<lparr>latest_data := ld\<rparr>))
               (map_prod id (\<lambda>w'. w'\<lparr>latest_data := ld\<rparr>)) (cancel_v1 hst w)"
    by (rule cancel_v1_latest_data)
next
  show "modal_v1 hst ''ESC'' w = cancel_v1 hst w" by (simp add: modal_v1_def)
next
  show "modal_link hst ''ESC'' w = cancel_link w" by (simp add: modal_link_def)
next
  show "objects (reached (cancel_link w)) = objects w"
    by (simp add: cancel_link_def reached_def Let_def split: option.splits)
qed

theorem stop_resets_home_witness:
  "timer sample_world = Some 1
   \<and> objects sample_world (armature_name sample_world) = Some sample_rig
   \<and> euler_axis ''Z'' (rotation_euler sample_bone) = 3
   \<and> (\<exists>w' p_bone'. cancel_v1 host_probe sample_world = Inr (CANCELLED, w')
         \<and> \<not> is_running w'
         \<and> bone_at w' ''Armature'' ''UpperArm.008'' = Some p_bone'
         \<and> rotation_mode p_bone' = ''XYZ''
         \<and> euler_axis ''Z'' (rotation_euler p_bone') = 0)"
proof -
  have h: "timer sample_world = Some 1
      \<and> objects sample_world (armature_name sample_world) = Some sample_rig
      \<and> pose sample_rig = Some sample_bones"
    by (simp add: sample_world_def sample_rig_def)
  have z: "euler_axis ''Z'' (rotation_euler sample_bone) = 3"
    by (simp add: euler_axis_def sample_bone_def)
  have n: "armature_name sample_world = ''Armature''" by (simp add: sample_world_def)
  from stop_resets_home [where w = sample_world and t = 1 and obj = sample_rig
      and bones = sample_bones] h
  obtain bones' where
    r: "cancel_v1 host_probe sample_world =
             Inr (CANCELLED,
                  sample_world\<lparr>is_running := False,
                    wm_timers := removeAll 1 (wm_timers sample_world),
                    objects := (objects sample_world)(armature_name sample_world
                                  \<mapsto> sample_rig\<lparr>pose := Some bones'\<rparr>)\<rparr>)"
    and u: "\<forall>(j, b, a) \<in> set JOINT_MAP. \<forall>p_bone. sample_bones b = Some p_bone
                \<longrightarrow> (\<exists>d. map_of INITIAL_POSE j = Some d
                         \<and> bones' b = Some (joint_write host_probe a (radians d) p_bone)
                         \<and> euler_axis a (rotation_euler (joint_write host_probe a (radians d) p_bone))
                             = radians d)"
    by blast
  from u have b: "bones' ''UpperArm.008'' = Some (joint_write host_probe ''Z'' 0 sample_bone)"
    by (simp add: JOINT_MAP_def INITIAL_POSE_def sample_bones_def radians_def)
  let ?w' = "sample_world\<lparr>is_running := False,
                    wm_timers := removeAll 1 (wm_timers sample_world),
                    objects := (objects sample_world)(armature_name sample_world
                                  \<mapsto> sample_rig\<lparr>pose := Some bones'\<rparr>)\<rparr>"
  have "\<not> is_running ?w'" by simp
  moreover have "bone_at ?w' ''Armature'' ''UpperArm.008'' = Some (joint_write host_probe ''Z'' 0 sample_bone)"
    using b by (simp add: bone_at_def n)
  moreover have "rotation_mode (joint_write host_probe ''Z'' 0 sample_bone) = ''XYZ''"
    by (simp add: joint_write_def set_rotation_mode_def Let_def)
  moreover have "euler_axis ''Z'' (rotation_euler (joint_write host_probe ''Z'' 0 sample_bone)) = 0"
    by (simp add: joint_write_def Let_def set_axis_def euler_axis_def)
  ultimately show ?thesis using h z r by blast
qed

section \<open>The bone loop of the Link Stage\<close>

lemma link_bones_bones:
  assumes "pose obj = Some bones"
    and "distinct (map snd bm)"
    and "\<forall>(sid, bn) \<in> set bm. \<forall>raw. ld (int_key sid) = Some raw
           \<longrightarrow> (\<exists>rot. link_rotation sid raw = Inr rot)"
  shows "\<exists>bones'. link_bones hst ld bm obj = Inr (obj\<lparr>pose := Some bones'\<rparr>)
           \<and> (\<forall>bn. bn \<notin> set (map snd bm) \<longrightarrow> bones' bn = bones bn)
           \<and> (\<forall>sid bn. (sid, bn) \<in> set bm \<longrightarrow> ld (int_key sid) = None
                 \<longrightarrow> bones' bn = bones bn)
           \<and> (\<forall>sid bn raw rot. (sid, bn) \<in> set bm \<longrightarrow> ld (int_key sid) = Some raw
                 \<longrightarrow> link_rotation sid raw = Inr rot
                 \<longrightarrow> bones' bn = map_option (link_write hst rot) (bones bn))"
  using assms
proof (induction bm arbitrary: obj bones)
  case Nil
  then show ?case by (intro exI [of _ bones]) simp
next
  case (Cons x bm)
  obtain s0 b0 where x: "x = (s0, b0)" by (cases x) auto
  from Cons.prems x have nin: "b0 \<notin> set (map snd bm)"
    and dist: "distinct (map snd bm)"
    and ok: "\<forall>(sid, bn) \<in> set bm. \<forall>raw. ld (int_key sid) = Some raw
           \<longrightarrow> (\<exists>rot. link_rotation sid raw = Inr rot)"
    by auto
  have rest_ne: "\<And>sid bn. (sid, bn) \<in> set bm \<Longrightarrow> bn \<noteq> b0"
    using nin by force
  have skip: "link_bones hst ld (x # bm) obj = link_bones hst ld bm obj"
    if "ld (int_key s0) = None \<or> bones b0 = None"
    using that Cons.prems(1) x by (auto split: option.splits)
  show ?case
  proof (cases "ld (int_key s0) = None \<or> bones b0 = None")
    case True
    from Cons.IH [OF Cons.prems(1) dist ok] obtain bones' where
      r: "link_bones hst ld bm obj = Inr (obj\<lparr>pose := Some bones'\<rparr>)"
      and f: "\<forall>bn. bn \<notin> set (map snd bm) \<longrightarrow> bones' bn = bones bn"
      and k: "\<forall>sid bn. (sid, bn) \<in> set bm \<longrightarrow> ld (int_key sid) = None
                 \<longrightarrow> bones' bn = bones bn"
      and u: "\<forall>sid bn raw rot. (sid, bn) \<in> set bm \<longrightarrow> ld (int_key sid) = Some raw
                 \<longrightarrow> link_rotation sid raw = Inr rot
                 \<longrightarrow> bones' bn = map_option (link_write hst rot) (bones bn)"
      by blast
    have b0: "bones' b0 = bones b0" using f nin by simp
    have "link_bones hst ld (x # bm) obj = Inr (obj\<lparr>pose := Some bones'\<rparr>)"
      using skip [OF True] r by simp
    moreover have "\<forall>bn. bn \<notin> set (map snd (x # bm)) \<longrightarrow> bones' bn = bones bn"
      using f by simp
    moreover have "\<forall>sid bn. (sid, bn) \<in> set (x # bm) \<longrightarrow> ld (int_key sid) = None
                 \<longrightarrow> bones' bn = bones bn"
      using k b0 x by auto
    moreover have "\<forall>sid bn raw rot. (sid, bn) \<in> set (x # bm) \<longrightarrow> ld (int_key sid) = Some raw
                 \<longrightarrow> link_rotation sid raw = Inr rot
                 \<longrightarrow> bones' bn = map_option (link_write hst rot) (bones bn)"
      using u b0 x True by auto
    ultimately show ?thesis by blast
  next
    case False
    then obtain raw pb where raw: "ld (int_key s0) = Some raw" and pb: "bones b0 = Some pb"
      by auto
    from Cons.prems(3) x raw obtain rot0 where rot0: "link_rotation s0 raw = Inr rot0"
      by auto
    let ?bones1 = "bones(b0 \<mapsto> link_write hst rot0 pb)"
    let ?obj1 = "obj\<lparr>pose := Some ?bones1\<rparr>"
    have p1: "pose ?obj1 = Some ?bones1" by simp
    from Cons.IH [OF p1 dist ok] obtain bones' where
      r: "link_bones hst ld bm ?obj1 = Inr (?obj1\<lparr>pose := Some bones'\<rparr>)"
      and f: "\<forall>bn. bn \<notin> set (map snd bm) \<longrightarrow> bones' bn = ?bones1 bn"
      and k: "\<forall>sid bn. (sid, bn) \<in> set bm \<longrightarrow> ld (int_key sid) = None
                 \<longrightarrow> bones' bn = ?bones1 bn"
      and u: "\<forall>sid bn raw rot. (sid, bn) \<in> set bm \<longrightarrow> ld (int_key sid) = Some raw
                 \<longrightarrow> link_rotation sid raw = Inr rot
                 \<longrightarrow> bones' bn = map_option (link_write hst rot) (?bones1 bn)"
      by blast
    have b0: "bones' b0 = Some (link_write hst rot0 pb)" using f nin by simp
    have "link_bones hst ld (x # bm) obj = Inr (obj\<lparr>pose := Some bones'\<rparr>)"
      using r raw pb rot0 Cons.prems(1) x by simp
    moreover have "\<forall>bn. bn \<notin> set (map snd (x # bm)) \<longrightarrow> bones' bn = bones bn"
      using f x by simp
    moreover have "\<forall>sid bn. (sid, bn) \<in> set (x # bm) \<longrightarrow> ld (int_key sid) = None
                 \<longrightarrow> bones' bn = bones bn"
      using k raw x rest_ne by auto
    moreover have "\<forall>sid bn raw rot. (sid, bn) \<in> set (x # bm) \<longrightarrow> ld (int_key sid) = Some raw
                 \<longrightarrow> link_rotation sid raw = Inr rot
                 \<longrightarrow> bones' bn = map_option (link_write hst rot) (bones bn)"
      using u b0 raw pb rot0 x rest_ne by auto
    ultimately show ?thesis by blast
  qed
qed

text \<open>Whatever the outcome, a bone of no sensor with data is left as it was.\<close>

lemma link_bones_frame:
  assumes "\<forall>sid. (sid, bn) \<in> set bm \<longrightarrow> ld (int_key sid) = None"
  shows "(case pose (outcome (link_bones hst ld bm obj)) of None \<Rightarrow> None | Some bs \<Rightarrow> bs bn)
           = (case pose obj of None \<Rightarrow> None | Some bs \<Rightarrow> bs bn)
         \<and> (pose (outcome (link_bones hst ld bm obj)) = None \<longleftrightarrow> pose obj = None)"
  using assms
proof (induction bm arbitrary: obj)
  case Nil
  then show ?case by (simp add: outcome_def)
next
  case (Cons x bm)
  obtain s0 b0 where x: "x = (s0, b0)" by (cases x) auto
  from Cons.prems have rest: "\<forall>sid. (sid, bn) \<in> set bm \<longrightarrow> ld (int_key sid) = None"
    by auto
  note IH = Cons.IH [OF rest]
  show ?case
  proof (cases "ld (int_key s0)")
    case None
    then show ?thesis using IH [of obj] x by simp
  next
    case (Some raw)
    with Cons.prems x have ne: "b0 \<noteq> bn" by auto
    show ?thesis
    proof (cases "pose obj")
      case None
      then show ?thesis using Some x by (simp add: outcome_def)
    next
      case bs: (Some bones)
      show ?thesis
      proof (cases "bones b0")
        case None
        then show ?thesis using IH [of obj] x Some bs by simp
      next
        case pb: (Some p_bone)
        show ?thesis
        proof (cases "link_rotation s0 raw")
          case (Inl e)
          then show ?thesis using x Some bs pb by (simp add: outcome_def)
        next
          case (Inr rot)
          then show ?thesis
            using IH [of "obj\<lparr>pose := Some (bones(b0 \<mapsto> link_write hst rot p_bone))\<rparr>"]
              x Some bs pb ne by simp
        qed
      qed
    qed
  qed
qed

lemma py_neg_float:
  assumes "py_float d = Inr z"
  shows "\<exists>nz. py_neg d = Inr nz \<and> py_float nz = Inr (- z)"
  using assms by (cases d) (auto simp: py_neg_def py_float_def split: if_splits)

lemma link_rotation_numbers:
  assumes "py_float a = Inr w" and "py_float b = Inr x"
    and "py_float c = Inr y" and "py_float d = Inr z"
  shows "link_rotation sid (JArr [a, b, c, d]) =
           Inr (quat_mul \<lparr>qw = w, qx = y, qy = x, qz = - z\<rparr> (to_quaternion (bone_offset sid)))"
proof -
  from py_neg_float [OF assms(4)] obtain nz where
    "py_neg d = Inr nz" and "py_float nz = Inr (- z)" by blast
  with assms(1-3) show ?thesis
    by (simp add: link_rotation_def unpack4_def Quaternion_def)
qed

lemma bone_offset_zero: "bone_offset sid = \<lparr>ex = 0, ey = 0, ez = 0\<rparr>"
  by (simp add: bone_offset_def BONE_OFFSETS_def)

lemma to_quaternion_zero:
  "to_quaternion \<lparr>ex = 0, ey = 0, ez = 0\<rparr> = \<lparr>qw = 1, qx = 0, qy = 0, qz = 0\<rparr>"
  by (simp add: to_quaternion_def)

lemma offset_identity: "to_quaternion (bone_offset sid) = \<lparr>qw = 1, qx = 0, qy = 0, qz = 0\<rparr>"
  by (simp only: bone_offset_zero to_quaternion_zero)

lemma quat_mul_identity: "quat_mul q \<lparr>qw = 1, qx = 0, qy = 0, qz = 0\<rparr> = q"
  by (simp add: quat_mul_def)

lemma is_rotation4_floats:
  assumes "is_rotation4 raw"
  shows "\<exists>a b c d w x y z. raw = JArr [a, b, c, d] \<and> py_float a = Inr w \<and> py_float b = Inr x
           \<and> py_float c = Inr y \<and> py_float d = Inr z"
proof -
  from assms obtain xs where raw: "raw = JArr xs" and len: "length xs = 4"
    and num: "list_all is_number xs"
    by (cases raw) (auto simp: is_rotation4_def)
  from len obtain a b c d where xs: "xs = [a, b, c, d]"
    by (cases xs; cases "tl xs"; cases "tl (tl xs)"; cases "tl (tl (tl xs))") auto
  from num xs have "is_number a" "is_number b" "is_number c" "is_number d" by simp_all
  then obtain w x y z where "py_float a = Inr w" "py_float b = Inr x"
    "py_float c = Inr y" "py_float d = Inr z"
    by (auto simp: is_number_def split: sum.splits)
  with raw xs show ?thesis by blast
qed

lemma is_rotation4_link:
  assumes "is_rotation4 raw"
  shows "\<exists>rot. link_rotation sid raw = Inr rot"
proof -
  from is_rotation4_floats [OF assms] obtain a b c d w x y z where
    "raw = JArr [a, b, c, d]" "py_float a = Inr w" "py_float b = Inr x"
    "py_float c = Inr y" "py_float d = Inr z" by blast
  then show ?thesis using link_rotation_numbers [of a w b x c y d z sid] by simp
qed

lemma is_rotation4_raw_quaternion: "is_rotation4 raw \<Longrightarrow> \<exists>q. raw_quaternion raw = Inr q"
proof -
  assume "is_rotation4 raw"
  from is_rotation4_floats [OF this] obtain a b c d w x y z where
    "raw = JArr [a, b, c, d]" "py_float a = Inr w" "py_float b = Inr x"
    "py_float c = Inr y" "py_float d = Inr z" by blast
  then show ?thesis
    by (simp add: raw_quaternion_def subscript_def Quaternion_def)
qed

lemma BONE_MAP_distinct: "distinct (map snd BONE_MAP)"
  by (simp add: BONE_MAP_def)

lemma modal_link_tick:
  assumes obj: "objects w (armature_name w) = Some obj"
    and bones: "pose obj = Some bones"
    and ok: "\<forall>(sid, bn) \<in> set BONE_MAP. \<forall>raw. latest_data w (int_key sid) = Some raw
               \<longrightarrow> is_rotation4 raw"
  shows "\<exists>bones'.
           modal_link hst ''TIMER'' w =
             Inr (PASS_THROUGH,
                  w\<lparr>objects := (objects w)(armature_name w \<mapsto> obj\<lparr>pose := Some bones'\<rparr>)\<rparr>)
           \<and> (\<forall>bn. bn \<notin> set (map snd BONE_MAP) \<longrightarrow> bones' bn = bones bn)
           \<and> (\<forall>sid bn. (sid, bn) \<in> set BONE_MAP \<longrightarrow> latest_data w (int_key sid) = None
                 \<longrightarrow> bones' bn = bones bn)
           \<and> (\<forall>sid bn raw rot. (sid, bn) \<in> set BONE_MAP
                 \<longrightarrow> latest_data w (int_key sid) = Some raw
                 \<longrightarrow> link_rotation sid raw = Inr rot
                 \<longrightarrow> bones' bn = map_option (link_write hst rot) (bones bn))"
proof -
  have ok': "\<forall>(sid, bn) \<in> set BONE_MAP. \<forall>raw. latest_data w (int_key sid) = Some raw
               \<longrightarrow> (\<exists>rot. link_rotation sid raw = Inr rot)"
  proof clarify
    fix sid bn raw
    assume "(sid, bn) \<in> set BONE_MAP" and "latest_data w (int_key sid) = Some raw"
    with ok have "is_rotation4 raw" by blast
    then show "\<exists>rot. link_rotation sid raw = Inr rot" by (rule is_rotation4_link)
  qed
  from link_bones_bones [OF bones BONE_MAP_distinct ok'] obtain bones' where
    r: "link_bones hst (latest_data w) BONE_MAP obj = Inr (obj\<lparr>pose := Some bones'\<rparr>)"
    and rest: "(\<forall>bn. bn \<notin> set (map snd BONE_MAP) \<longrightarrow> bones' bn = bones bn)
           \<and> (\<forall>sid bn. (sid, bn) \<in> set BONE_MAP \<longrightarrow> latest_data w (int_key sid) = None
                 \<longrightarrow> bones' bn = bones bn)
           \<and> (\<forall>sid bn raw rot. (sid, bn) \<in> set BONE_MAP
                 \<longrightarrow> latest_data w (int_key sid) = Some raw
                 \<longrightarrow> link_rotation sid raw = Inr rot
                 \<longrightarrow> bones' bn = map_option (link_write hst rot) (bones bn))"
    by blast
  have "modal_link hst ''TIMER'' w =
             Inr (PASS_THROUGH,
                  w\<lparr>objects := (objects w)(armature_name w \<mapsto> obj\<lparr>pose := Some bones'\<rparr>)\<rparr>)"
    using obj r by (simp add: modal_link_def)
  with rest show ?thesis by blast
qed

section \<open>The Link Stage on a tick\<close>

lemma modal_link_bone:
  assumes m: "(sid, bn) \<in> set BONE_MAP"
    and obj: "objects w (armature_name w) = Some obj"
    and bones: "pose obj = Some bones"
    and pb: "bones bn = Some p_bone"
    and ok: "\<forall>(s, b) \<in> set BONE_MAP. \<forall>raw. latest_data w (int_key s) = Some raw
               \<longrightarrow> is_rotation4 raw"
    and raw: "latest_data w (int_key sid) = Some raw"
    and rot: "link_rotation sid raw = Inr rot"
  shows "\<exists>w'. modal_link hst ''TIMER'' w = Inr (PASS_THROUGH, w')
           \<and> bone_at w' (armature_name w) bn = Some (link_write hst rot p_bone)"
proof -
  from modal_link_tick [OF obj bones ok] obtain bones' where
    r: "modal_link hst ''TIMER'' w =
             Inr (PASS_THROUGH,
                  w\<lparr>objects := (objects w)(armature_name w \<mapsto> obj\<lparr>pose := Some bones'\<rparr>)\<rparr>)"
    and u: "\<forall>sid bn raw rot. (sid, bn) \<in> set BONE_MAP
                 \<longrightarrow> latest_data w (int_key sid) = Some raw
                 \<longrightarrow> link_rotation sid raw = Inr rot
                 \<longrightarrow> bones' bn = map_option (link_write hst rot) (bones bn)"
    by blast
  from u m raw rot pb have "bones' bn = Some (link_write hst rot p_bone)" by simp
  then have "bone_at (w\<lparr>objects := (objects w)(armature_name w \<mapsto> obj\<lparr>pose := Some bones'\<rparr>)\<rparr>)
               (armature_name w) bn = Some (link_write hst rot p_bone)"
    by (simp add: bone_at_upd)
  with r show ?thesis by blast
qed

text \<open>
  C2. The Link Stage on a tick. For a sensor of \<open>BONE_MAP\<close> whose entry is the list
  of numbers \<open>[w, x, y, z]\<close>, with the armature resolved, its bone present and every
  entry of a configured sensor a list of four numbers, the bone's quaternion after the
  tick is \<open>(w, y, x, - z)\<close> multiplied on the right by the quaternion of the sensor's
  offset. Every offset of the script is the zero Euler triple, whose quaternion is the
  identity, a right unit of the product: the bone holds \<open>(w, y, x, - z)\<close> itself, and
  for the entry \<open>(1, 0, 0, 0)\<close> the identity rotation.
\<close>

theorem link_rotation_applied:
  "((sid, bn) \<in> set BONE_MAP
      \<and> objects w (armature_name w) = Some obj \<and> pose obj = Some bones
      \<and> bones bn = Some p_bone
      \<and> (\<forall>(s, b) \<in> set BONE_MAP. \<forall>raw. latest_data w (int_key s) = Some raw
            \<longrightarrow> is_rotation4 raw)
      \<and> latest_data w (int_key sid) = Some (JArr [c0, c1, c2, c3])
      \<and> py_float c0 = Inr w0 \<and> py_float c1 = Inr x0
      \<and> py_float c2 = Inr y0 \<and> py_float c3 = Inr z0
    \<longrightarrow> (\<exists>w' p_bone'.
           modal_link hst ''TIMER'' w = Inr (PASS_THROUGH, w')
           \<and> bone_at w' (armature_name w) bn = Some p_bone'
           \<and> rotation_quaternion p_bone' =
               quat_mul \<lparr>qw = w0, qx = y0, qy = x0, qz = - z0\<rparr> (to_quaternion (bone_offset sid))
           \<and> rotation_quaternion p_bone' = \<lparr>qw = w0, qx = y0, qy = x0, qz = - z0\<rparr>))
   \<and> to_quaternion (bone_offset sid) = \<lparr>qw = 1, qx = 0, qy = 0, qz = 0\<rparr>
   \<and> quat_mul q \<lparr>qw = 1, qx = 0, qy = 0, qz = 0\<rparr> = q
   \<and> link_rotation sid (JArr [JNum 1, JNum 0, JNum 0, JNum 0])
       = Inr \<lparr>qw = 1, qx = 0, qy = 0, qz = 0\<rparr>"
proof (intro conjI impI)
  assume h: "(sid, bn) \<in> set BONE_MAP
      \<and> objects w (armature_name w) = Some obj \<and> pose obj = Some bones
      \<and> bones bn = Some p_bone
      \<and> (\<forall>(s, b) \<in> set BONE_MAP. \<forall>raw. latest_data w (int_key s) = Some raw
            \<longrightarrow> is_rotation4 raw)
      \<and> latest_data w (int_key sid) = Some (JArr [c0, c1, c2, c3])
      \<and> py_float c0 = Inr w0 \<and> py_float c1 = Inr x0
      \<and> py_float c2 = Inr y0 \<and> py_float c3 = Inr z0"
  let ?rot = "quat_mul \<lparr>qw = w0, qx = y0, qy = x0, qz = - z0\<rparr> (to_quaternion (bone_offset sid))"
  from h have rot: "link_rotation sid (JArr [c0, c1, c2, c3]) = Inr ?rot"
    using link_rotation_numbers [of c0 w0 c1 x0 c2 y0 c3 z0 sid] by blast
  from h modal_link_bone [of sid bn w obj bones p_bone "JArr [c0, c1, c2, c3]" ?rot] rot
  obtain w' where r: "modal_link hst ''TIMER'' w = Inr (PASS_THROUGH, w')"
    and b: "bone_at w' (armature_name w) bn = Some (link_write hst ?rot p_bone)"
    by blast
  have q1: "rotation_quaternion (link_write hst ?rot p_bone) = ?rot"
    by (simp add: link_write_def)
  have q2: "?rot = \<lparr>qw = w0, qx = y0, qy = x0, qz = - z0\<rparr>"
    by (simp only: offset_identity quat_mul_identity)
  from r b q1 q2 show "\<exists>w' p_bone'.
           modal_link hst ''TIMER'' w = Inr (PASS_THROUGH, w')
           \<and> bone_at w' (armature_name w) bn = Some p_bone'
           \<and> rotation_quaternion p_bone' = ?rot
           \<and> rotation_quaternion p_bone' = \<lparr>qw = w0, qx = y0, qy = x0, qz = - z0\<rparr>"
    by metis
next
  show "to_quaternion (bone_offset sid) = \<lparr>qw = 1, qx = 0, qy = 0, qz = 0\<rparr>"
    by (rule offset_identity)
next
  show "quat_mul q \<lparr>qw = 1, qx = 0, qy = 0, qz = 0\<rparr> = q"
    by (rule quat_mul_identity)
next
  have "link_rotation sid (JArr [JNum 1, JNum 0, JNum 0, JNum 0])
          = Inr (quat_mul \<lparr>qw = 1, qx = 0, qy = 0, qz = - 0\<rparr> (to_quaternion (bone_offset sid)))"
    by (rule link_rotation_numbers) (simp_all add: py_float_def)
  then show "link_rotation sid (JArr [JNum 1, JNum 0, JNum 0, JNum 0])
       = Inr \<lparr>qw = 1, qx = 0, qy = 0, qz = 0\<rparr>"
    by (simp add: offset_identity quat_mul_identity)
qed

theorem link_rotation_applied_witness:
  "(0, ''UpperArm.008'') \<in> set BONE_MAP
   \<and> latest_data sample_world_reading (int_key 0) = Some (JArr [JNum 1, JNum 2, JNum 3, JNum 4])
   \<and> (\<exists>w' p_bone'.
         modal_link host_probe ''TIMER'' sample_world_reading = Inr (PASS_THROUGH, w')
         \<and> bone_at w' ''Armature'' ''UpperArm.008'' = Some p_bone'
         \<and> rotation_quaternion p_bone' = \<lparr>qw = 1, qx = 3, qy = 2, qz = - 4\<rparr>)"
proof -
  have n: "armature_name sample_world_reading = ''Armature''"
    by (simp add: sample_world_reading_def sample_world_def)
  have d: "latest_data sample_world_reading (int_key 0)
             = Some (JArr [JNum 1, JNum 2, JNum 3, JNum 4])"
    by (simp add: sample_world_reading_def int_key_def)
  have m: "(0, ''UpperArm.008'') \<in> set BONE_MAP" by (simp add: BONE_MAP_def)
  have ok: "\<forall>(s, b) \<in> set BONE_MAP. \<forall>raw. latest_data sample_world_reading (int_key s) = Some raw
            \<longrightarrow> is_rotation4 raw"
    by (simp add: BONE_MAP_def sample_world_reading_def int_key_def is_rotation4_def
          is_number_def py_float_def)
  have h: "(0, ''UpperArm.008'') \<in> set BONE_MAP
      \<and> objects sample_world_reading (armature_name sample_world_reading) = Some sample_rig
      \<and> pose sample_rig = Some sample_bones
      \<and> sample_bones ''UpperArm.008'' = Some sample_bone
      \<and> (\<forall>(s, b) \<in> set BONE_MAP. \<forall>raw. latest_data sample_world_reading (int_key s) = Some raw
            \<longrightarrow> is_rotation4 raw)
      \<and> latest_data sample_world_reading (int_key 0) = Some (JArr [JNum 1, JNum 2, JNum 3, JNum 4])
      \<and> py_float (JNum 1) = Inr 1 \<and> py_float (JNum 2) = Inr 2
      \<and> py_float (JNum 3) = Inr 3 \<and> py_float (JNum 4) = Inr 4"
    using m ok d
    by (simp add: sample_world_reading_def sample_world_def sample_rig_def sample_bones_def
          py_float_def)
  from link_rotation_applied [where sid = 0 and bn = "''UpperArm.008''"
      and w = sample_world_reading and obj = sample_rig and bones = sample_bones
      and p_bone = sample_bone and ?c0.0 = "JNum 1" and ?c1.0 = "JNum 2" and ?c2.0 = "JNum 3"
      and ?c3.0 = "JNum 4" and ?w0.0 = 1 and ?x0.0 = 2 and ?y0.0 = 3 and ?z0.0 = 4] h
  obtain w' p_bone' where
    "modal_link host_probe ''TIMER'' sample_world_reading = Inr (PASS_THROUGH, w')"
    "bone_at w' (armature_name sample_world_reading) ''UpperArm.008'' = Some p_bone'"
    "rotation_quaternion p_bone' = \<lparr>qw = 1, qx = 3, qy = 2, qz = - 4\<rparr>"
    by blast
  with m d n show ?thesis by auto
qed

text \<open>
  C10. Every pose write sets the bone's rotation mode first, whatever mode the bone
  had: the write of the Link Stage sets \<^verbatim>\<open>'QUATERNION'\<close>, the write of the Retarget
  Stage \<^verbatim>\<open>'XYZ'\<close>. After a tick of the Link Stage the bone of a sensor with data is in
  quaternion mode; after a tick of the Retarget Stage that passes the gate, and after
  its \<^verbatim>\<open>cancel\<close>, the bone of every joint is in mode \<^verbatim>\<open>'XYZ'\<close>.
\<close>

theorem pose_write_sets_mode:
  "rotation_mode (link_write hst rot p) = ''QUATERNION''
   \<and> rotation_mode (joint_write hst axis ang p) = ''XYZ''
   \<and> ((sid, bn) \<in> set BONE_MAP
        \<and> objects w (armature_name w) = Some obj \<and> pose obj = Some bones
        \<and> bones bn = Some p_bone
        \<and> (\<forall>(s, b) \<in> set BONE_MAP. \<forall>raw. latest_data w (int_key s) = Some raw
              \<longrightarrow> is_rotation4 raw)
        \<and> latest_data w (int_key sid) = Some raw
      \<longrightarrow> (\<exists>w' p_bone'.
             modal_link hst ''TIMER'' w = Inr (PASS_THROUGH, w')
             \<and> bone_at w' (armature_name w) bn = Some p_bone'
             \<and> rotation_mode p_bone' = ''QUATERNION''))
   \<and> ((j, b, a) \<in> set JOINT_MAP
        \<and> objects w (armature_name w) = Some obj \<and> pose obj = Some bones
        \<and> bones b = Some p_bone
        \<and> latest_data w (int_key IMU_SHOULDER_ID) = Some r1
        \<and> latest_data w (int_key IMU_FOREARM_ID) = Some r2
        \<and> raw_quaternion r1 = Inr q1 \<and> raw_quaternion r2 = Inr q2
      \<longrightarrow> (\<exists>w' p_bone'.
             modal_v1 hst ''TIMER'' w = Inr (PASS_THROUGH, w')
             \<and> bone_at w' (armature_name w) b = Some p_bone'
             \<and> rotation_mode p_bone' = ''XYZ''))
   \<and> ((j, b, a) \<in> set JOINT_MAP
        \<and> timer w = Some t
        \<and> objects w (armature_name w) = Some obj \<and> pose obj = Some bones
        \<and> bones b = Some p_bone
      \<longrightarrow> (\<exists>w' p_bone'.
             cancel_v1 hst w = Inr (CANCELLED, w')
             \<and> bone_at w' (armature_name w) b = Some p_bone'
             \<and> rotation_mode p_bone' = ''XYZ''))"
proof (intro conjI impI)
  show "rotation_mode (link_write hst rot p) = ''QUATERNION''"
    by (simp add: link_write_def set_rotation_mode_def Let_def)
next
  show "rotation_mode (joint_write hst axis ang p) = ''XYZ''"
    by (simp add: joint_write_def set_rotation_mode_def Let_def)
next
  assume h: "(sid, bn) \<in> set BONE_MAP
        \<and> objects w (armature_name w) = Some obj \<and> pose obj = Some bones
        \<and> bones bn = Some p_bone
        \<and> (\<forall>(s, b) \<in> set BONE_MAP. \<forall>raw. latest_data w (int_key s) = Some raw
              \<longrightarrow> is_rotation4 raw)
        \<and> latest_data w (int_key sid) = Some raw"
  then have "is_rotation4 raw" by blast
  then obtain rot' where rot': "link_rotation sid raw = Inr rot'"
    using is_rotation4_link by blast
  from h modal_link_bone [of sid bn w obj bones p_bone raw rot'] rot'
  obtain w' where "modal_link hst ''TIMER'' w = Inr (PASS_THROUGH, w')"
    and "bone_at w' (armature_name w) bn = Some (link_write hst rot' p_bone)"
    by blast
  moreover have "rotation_mode (link_write hst rot' p_bone) = ''QUATERNION''"
    by (simp add: link_write_def set_rotation_mode_def Let_def)
  ultimately show "\<exists>w' p_bone'.
             modal_link hst ''TIMER'' w = Inr (PASS_THROUGH, w')
             \<and> bone_at w' (armature_name w) bn = Some p_bone'
             \<and> rotation_mode p_bone' = ''QUATERNION''"
    by blast
next
  assume h: "(j, b, a) \<in> set JOINT_MAP
        \<and> objects w (armature_name w) = Some obj \<and> pose obj = Some bones
        \<and> bones b = Some p_bone
        \<and> latest_data w (int_key IMU_SHOULDER_ID) = Some r1
        \<and> latest_data w (int_key IMU_FOREARM_ID) = Some r2
        \<and> raw_quaternion r1 = Inr q1 \<and> raw_quaternion r2 = Inr q2"
  let ?ta = "target_angles (to_euler hst ''ZYX'' q1) (to_euler hst ''ZYX'' q2)"
  from h modal_v1_tick [of w obj bones r1 r2 q1 q2 hst]
  obtain bones' where
    r: "modal_v1 hst ''TIMER'' w =
          Inr (PASS_THROUGH,
               w\<lparr>objects := (objects w)(armature_name w \<mapsto> obj\<lparr>pose := Some bones'\<rparr>)\<rparr>)"
    and u: "\<forall>j b a ang. (j, b, a) \<in> set JOINT_MAP \<longrightarrow> map_of ?ta j = Some ang
              \<longrightarrow> bones' b = map_option (joint_write hst a ang) (bones b)"
    by blast
  from h have m: "(j, b, a) \<in> set JOINT_MAP" and pb: "bones b = Some p_bone" by simp_all
  from target_angles_total m obtain ang where ang: "map_of ?ta j = Some ang" by fastforce
  with u m pb have "bones' b = Some (joint_write hst a ang p_bone)" by simp
  then have "bone_at (w\<lparr>objects := (objects w)(armature_name w \<mapsto> obj\<lparr>pose := Some bones'\<rparr>)\<rparr>)
               (armature_name w) b = Some (joint_write hst a ang p_bone)"
    by (simp add: bone_at_upd)
  moreover have "rotation_mode (joint_write hst a ang p_bone) = ''XYZ''"
    by (simp add: joint_write_def set_rotation_mode_def Let_def)
  ultimately show "\<exists>w' p_bone'.
             modal_v1 hst ''TIMER'' w = Inr (PASS_THROUGH, w')
             \<and> bone_at w' (armature_name w) b = Some p_bone'
             \<and> rotation_mode p_bone' = ''XYZ''"
    using r by blast
next
  assume h: "(j, b, a) \<in> set JOINT_MAP
        \<and> timer w = Some t
        \<and> objects w (armature_name w) = Some obj \<and> pose obj = Some bones
        \<and> bones b = Some p_bone"
  from h cancel_v1_reset [of w t obj bones] obtain bones' where
    r: "cancel_v1 hst w =
             Inr (CANCELLED,
                  w\<lparr>is_running := False,
                    wm_timers := removeAll t (wm_timers w),
                    objects := (objects w)(armature_name w \<mapsto> obj\<lparr>pose := Some bones'\<rparr>)\<rparr>)"
    and u: "\<forall>j b a. (j, b, a) \<in> set JOINT_MAP
                 \<longrightarrow> bones' b = map_option (joint_write hst a (home_angle j)) (bones b)"
    by blast
  from h have m: "(j, b, a) \<in> set JOINT_MAP" and pb: "bones b = Some p_bone" by simp_all
  from u m pb have "bones' b = Some (joint_write hst a (home_angle j) p_bone)" by simp
  then have "bone_at (w\<lparr>is_running := False,
                    wm_timers := removeAll t (wm_timers w),
                    objects := (objects w)(armature_name w \<mapsto> obj\<lparr>pose := Some bones'\<rparr>)\<rparr>)
               (armature_name w) b = Some (joint_write hst a (home_angle j) p_bone)"
    by (simp add: bone_at_def)
  moreover have "rotation_mode (joint_write hst a (home_angle j) p_bone) = ''XYZ''"
    by (simp add: joint_write_def set_rotation_mode_def Let_def)
  ultimately show "\<exists>w' p_bone'.
             cancel_v1 hst w = Inr (CANCELLED, w')
             \<and> bone_at w' (armature_name w) b = Some p_bone'
             \<and> rotation_mode p_bone' = ''XYZ''"
    using r by blast
qed

theorem pose_write_sets_mode_witness:
  "rotation_mode sample_bone = ''QUATERNION''
   \<and> (\<exists>w' p_bone'.
         modal_link host_probe ''TIMER'' sample_world_data = Inr (PASS_THROUGH, w')
         \<and> bone_at w' ''Armature'' ''UpperArm.021'' = Some p_bone'
         \<and> rotation_mode p_bone' = ''QUATERNION'')
   \<and> (\<exists>w' p_bone'.
         modal_v1 host_probe ''TIMER'' sample_world_data = Inr (PASS_THROUGH, w')
         \<and> bone_at w' ''Armature'' ''UpperArm.008'' = Some p_bone'
         \<and> rotation_mode p_bone' = ''XYZ'')
   \<and> (\<exists>w' p_bone'.
         cancel_v1 host_probe sample_world_data = Inr (CANCELLED, w')
         \<and> bone_at w' ''Armature'' ''UpperArm.008'' = Some p_bone'
         \<and> rotation_mode p_bone' = ''XYZ'')"
proof -
  have n: "armature_name sample_world_data = ''Armature''"
    by (simp add: sample_world_data_def sample_world_def)
  have t: "timer sample_world_data = Some 1"
    by (simp add: sample_world_data_def sample_world_def)
  have d1: "latest_data sample_world_data (int_key 1)
              = Some (JArr [JNum 1, JNum 0, JNum 0, JNum 0])"
    by (simp add: sample_world_data_def sample_data_def int_key_def)
  have ok: "\<forall>(s, b) \<in> set BONE_MAP. \<forall>raw. latest_data sample_world_data (int_key s) = Some raw
            \<longrightarrow> is_rotation4 raw"
    by (simp add: BONE_MAP_def sample_world_data_def sample_data_def int_key_def
          is_rotation4_def is_number_def py_float_def)
  have b21: "sample_bones ''UpperArm.021'' = Some sample_bone"
    and b08: "sample_bones ''UpperArm.008'' = Some sample_bone"
    by (simp_all add: sample_bones_def)
  have m1: "(1, ''UpperArm.021'') \<in> set BONE_MAP" by (simp add: BONE_MAP_def)
  have j: "(''Base'', ''UpperArm.008'', ''Z'') \<in> set JOINT_MAP" by (simp add: JOINT_MAP_def)
  note inst = pose_write_sets_mode [where w = sample_world_data and obj = sample_rig
      and bones = sample_bones and p_bone = sample_bone and sid = 1 and bn = "''UpperArm.021''"
      and raw = "JArr [JNum 1, JNum 0, JNum 0, JNum 0]"
      and j = "''Base''" and b = "''UpperArm.008''" and a = "''Z''"
      and ?r1.0 = "JArr [JNum 1, JNum 0, JNum 0, JNum 0]"
      and ?r2.0 = "JArr [JNum 1, JNum 0, JNum 0, JNum 0]"
      and ?q1.0 = "\<lparr>qw = 1, qx = 0, qy = 0, qz = 0\<rparr>"
      and ?q2.0 = "\<lparr>qw = 1, qx = 0, qy = 0, qz = 0\<rparr>"
      and hst = host_probe and t = 1]
  have link: "\<exists>w' p_bone'.
         modal_link host_probe ''TIMER'' sample_world_data = Inr (PASS_THROUGH, w')
         \<and> bone_at w' ''Armature'' ''UpperArm.021'' = Some p_bone'
         \<and> rotation_mode p_bone' = ''QUATERNION''"
    using inst m1 sample_tick_hyps(1,2) b21 ok d1 unfolding n by blast
  have tick: "\<exists>w' p_bone'.
         modal_v1 host_probe ''TIMER'' sample_world_data = Inr (PASS_THROUGH, w')
         \<and> bone_at w' ''Armature'' ''UpperArm.008'' = Some p_bone'
         \<and> rotation_mode p_bone' = ''XYZ''"
    using inst j sample_tick_hyps b08 sample_raw_quaternion unfolding n by blast
  have stop: "\<exists>w' p_bone'.
         cancel_v1 host_probe sample_world_data = Inr (CANCELLED, w')
         \<and> bone_at w' ''Armature'' ''UpperArm.008'' = Some p_bone'
         \<and> rotation_mode p_bone' = ''XYZ''"
    using inst j t sample_tick_hyps(1,2) b08 unfolding n by blast
  have "rotation_mode sample_bone = ''QUATERNION''" by (simp add: sample_bone_def)
  with link tick stop show ?thesis by blast
qed

section \<open>Start\<close>

lemma resolve_armature_none:
  assumes "\<forall>n ob. active_obj w = Some (n, ob) \<longrightarrow> obj_type ob \<noteq> ''ARMATURE''"
    and "objects w ''Armature'' = None"
  shows "resolve_armature w = None"
  using assms by (auto simp: resolve_armature_def split: option.splits)

text \<open>
  C8. Start without a rig. When the run flag is clear, the active object (if any) is not
  of type \<^verbatim>\<open>'ARMATURE'\<close> and no object is named \<^verbatim>\<open>"Armature"\<close>, \<^verbatim>\<open>execute\<close> of
  either script returns \<^verbatim>\<open>{'CANCELLED'}\<close> and changes nothing but the list of reported
  messages, to which it adds one error: the flag stays clear, no receiver thread is
  started, no timer and no modal handler is registered.
\<close>

theorem start_without_rig:
  assumes idle: "\<not> is_running w"
    and active: "\<forall>n ob. active_obj w = Some (n, ob) \<longrightarrow> obj_type ob \<noteq> ''ARMATURE''"
    and fallback: "objects w ''Armature'' = None"
  shows "execute_v1 w =
           (CANCELLED, w\<lparr>reports := reports w @ [(''ERROR'', ''Select Armature first!'')]\<rparr>)
         \<and> execute_link w =
           (CANCELLED,
            w\<lparr>reports := reports w @ [(''ERROR'', ''Please SELECT your Robot Armature first!'')]\<rparr>)
         \<and> (\<forall>w' \<in> {snd (execute_v1 w), snd (execute_link w)}.
               \<not> is_running w' \<and> threads_started w' = threads_started w
               \<and> wm_timers w' = wm_timers w \<and> timer w' = timer w
               \<and> modal_handlers w' = modal_handlers w)"
  using idle resolve_armature_none [OF active fallback]
  by (simp add: execute_v1_def execute_link_def)

theorem start_without_rig_witness:
  "\<not> is_running idle_world_no_rig
   \<and> objects idle_world_no_rig ''Armature'' = None
   \<and> execute_v1 idle_world_no_rig =
       (CANCELLED, idle_world_no_rig\<lparr>reports := [(''ERROR'', ''Select Armature first!'')]\<rparr>)
   \<and> execute_link idle_world_no_rig =
       (CANCELLED,
        idle_world_no_rig\<lparr>reports := [(''ERROR'', ''Please SELECT your Robot Armature first!'')]\<rparr>)"
proof -
  have idle: "\<not> is_running idle_world_no_rig" by (simp add: idle_world_no_rig_def)
  have active: "\<forall>n ob. active_obj idle_world_no_rig = Some (n, ob) \<longrightarrow> obj_type ob \<noteq> ''ARMATURE''"
    by (simp add: idle_world_no_rig_def active_obj_def)
  have fallback: "objects idle_world_no_rig ''Armature'' = None"
    by (simp add: idle_world_no_rig_def)
  have "reports idle_world_no_rig = []" by (simp add: idle_world_no_rig_def)
  with start_without_rig [OF idle active fallback] idle fallback show ?thesis by simp
qed

section \<open>Runs of the whole system\<close>

lemma run_invariant:
  assumes "P w"
    and "\<And>ev w. Rx ev \<in> set evs \<Longrightarrow> P w \<Longrightarrow> P (rx_loop loads [ev] w)"
    and "\<And>t w. Ui t \<in> set evs \<Longrightarrow> P w \<Longrightarrow> P (reached (modal t w))"
  shows "P (outcome (run modal loads evs w))"
  using assms
proof (induction evs arbitrary: w)
  case Nil
  then show ?case by (simp add: outcome_def)
next
  case (Cons e evs)
  show ?case
  proof (cases e)
    case (Rx ev)
    have "P (rx_loop loads [ev] w)" using Cons.prems(1,2) Rx by simp
    then have "P (outcome (run modal loads evs (rx_loop loads [ev] w)))"
      using Cons.prems(2,3) by (intro Cons.IH) auto
    then show ?thesis using Rx by simp
  next
    case (Ui t)
    have step: "P (reached (modal t w))" using Cons.prems(1,3) Ui by simp
    show ?thesis
    proof (cases "modal t w")
      case (Inl x)
      then show ?thesis using step Ui by (cases x) (simp add: outcome_def reached_def)
    next
      case (Inr y)
      obtain r w' where y: "y = (r, w')" by (cases y) auto
      from step Inr y have pw': "P w'" by (simp add: reached_def)
      show ?thesis
      proof (cases "r = CANCELLED")
        case True
        then show ?thesis using Inr y Ui pw' by (simp add: outcome_def)
      next
        case False
        have "P (outcome (run modal loads evs w'))"
          using pw' Cons.prems(2,3) by (intro Cons.IH) auto
        then show ?thesis using Inr y Ui False by simp
      qed
    qed
  qed
qed

lemma rx_loop_single:
  "objects (rx_loop loads [ev] w) = objects w"
  "armature_name (rx_loop loads [ev] w) = armature_name w"
  by (cases ev; simp add: handle_line_packet_of split: option.splits)+

lemma rx_loop_single_store:
  assumes "latest_data w k = None" and "\<not> carries loads k (Rx ev)"
  shows "latest_data (rx_loop loads [ev] w) k = None"
  using assms
  by (cases ev) (auto simp: handle_line_packet_of carries_def split: option.splits)

lemma modal_link_latest_data:
  "latest_data (reached (modal_link hst t w)) = latest_data w"
  by (auto simp: modal_link_def cancel_link_def reached_def Let_def split: option.splits sum.splits)

lemma int_key_inject: "int_key a = int_key b \<longleftrightarrow> a = b"
  by (simp add: int_key_def)

lemma BONE_MAP_bone_sensor:
  "(sid, bn) \<in> set BONE_MAP \<Longrightarrow> (sid', bn) \<in> set BONE_MAP \<Longrightarrow> sid' = sid"
  by (auto simp: BONE_MAP_def)

lemma modal_link_frame:
  assumes m: "(sid, bn) \<in> set BONE_MAP" and none: "latest_data w (int_key sid) = None"
  shows "bone_at (reached (modal_link hst t w)) n bn = bone_at w n bn"
proof -
  have fr: "\<forall>sid'. (sid', bn) \<in> set BONE_MAP \<longrightarrow> latest_data w (int_key sid') = None"
    using BONE_MAP_bone_sensor [OF m] none by blast
  have cancel: "bone_at (reached (cancel_link w)) n bn = bone_at w n bn"
    by (simp add: cancel_link_def reached_def bone_at_def Let_def split: option.splits)
  show ?thesis
  proof (cases "t = ''TIMER''")
    case False
    then show ?thesis using cancel by (simp add: modal_link_def reached_def)
  next
    case True
    show ?thesis
    proof (cases "objects w (armature_name w)")
      case None
      then show ?thesis using True cancel by (simp add: modal_link_def)
    next
      case (Some obj)
      let ?obj' = "outcome (link_bones hst (latest_data w) BONE_MAP obj)"
      have r: "reached (modal_link hst t w) = w\<lparr>objects := (objects w)(armature_name w \<mapsto> ?obj')\<rparr>"
        using True Some
        by (simp add: modal_link_def reached_def outcome_def split: sum.splits prod.splits)
      from link_bones_frame [OF fr, where obj = obj and hst = hst]
      have "(case pose ?obj' of None \<Rightarrow> None | Some bs \<Rightarrow> bs bn)
              = (case pose obj of None \<Rightarrow> None | Some bs \<Rightarrow> bs bn)"
        by blast
      then show ?thesis using Some by (simp add: r bone_at_def)
    qed
  qed
qed

lemma modal_v1_closed_gate:
  assumes "latest_data w (int_key IMU_SHOULDER_ID) = None
             \<or> latest_data w (int_key IMU_FOREARM_ID) = None"
    and "t \<noteq> ''ESC''"
  shows "reached (modal_v1 hst t w) = w"
  using assms modal_v1_gate [OF assms(1), of hst]
  by (cases "t = ''TIMER''") (simp_all add: reached_def modal_v1_def)

text \<open>
  C4, as amended. Over any run of the Link Stage, ticks, other events and stop
  included and whether or not it ends in an exception, the bone of a sensor that has no
  entry at the beginning and for which no packet arrives during the run is the same at
  the end as at the beginning, in every object. Over any run of the Retarget Stage
  without a stop, if the shoulder id or the forearm id has no entry at the beginning and
  receives no packet, no object changes. \<^verbatim>\<open>execute\<close> of either script changes no
  object.
\<close>

theorem never_received_untouched:
  "((sid, bn) \<in> set BONE_MAP \<and> latest_data w (int_key sid) = None
      \<and> (\<forall>ev \<in> set evs. \<not> carries loads (int_key sid) ev)
    \<longrightarrow> bone_at (outcome (run (modal_link hst) loads evs w)) n bn = bone_at w n bn)
   \<and> ((k = int_key IMU_SHOULDER_ID \<or> k = int_key IMU_FOREARM_ID)
        \<and> latest_data w k = None
        \<and> (\<forall>ev \<in> set evs. \<not> carries loads k ev)
        \<and> Ui ''ESC'' \<notin> set evs
    \<longrightarrow> objects (outcome (run (modal_v1 hst) loads evs w)) = objects w)
   \<and> objects (snd (execute_link w)) = objects w
   \<and> objects (snd (execute_v1 w)) = objects w"
proof (intro conjI impI)
  assume h: "(sid, bn) \<in> set BONE_MAP \<and> latest_data w (int_key sid) = None
      \<and> (\<forall>ev \<in> set evs. \<not> carries loads (int_key sid) ev)"
  let ?P = "\<lambda>w' :: world. latest_data w' (int_key sid) = None \<and> bone_at w' n bn = bone_at w n bn"
  have "?P (outcome (run (modal_link hst) loads evs w))"
  proof (rule run_invariant)
    show "?P w" using h by simp
  next
    fix ev w'
    assume "Rx ev \<in> set evs" and p: "?P w'"
    with h have "\<not> carries loads (int_key sid) (Rx ev)" by blast
    with p have "latest_data (rx_loop loads [ev] w') (int_key sid) = None"
      by (intro rx_loop_single_store) simp_all
    moreover have "bone_at (rx_loop loads [ev] w') n bn = bone_at w' n bn"
      by (simp add: bone_at_def rx_loop_single del: rx_loop.simps)
    ultimately show "?P (rx_loop loads [ev] w')" using p by simp
  next
    fix t w'
    assume p: "?P w'"
    from h have m: "(sid, bn) \<in> set BONE_MAP" by simp
    from p have "bone_at (reached (modal_link hst t w')) n bn = bone_at w' n bn"
      by (intro modal_link_frame [OF m]) simp
    with p show "?P (reached (modal_link hst t w'))"
      by (simp add: modal_link_latest_data)
  qed
  then show "bone_at (outcome (run (modal_link hst) loads evs w)) n bn = bone_at w n bn" by simp
next
  assume h: "(k = int_key IMU_SHOULDER_ID \<or> k = int_key IMU_FOREARM_ID)
        \<and> latest_data w k = None
        \<and> (\<forall>ev \<in> set evs. \<not> carries loads k ev)
        \<and> Ui ''ESC'' \<notin> set evs"
  let ?P = "\<lambda>w' :: world. latest_data w' k = None \<and> objects w' = objects w"
  have "?P (outcome (run (modal_v1 hst) loads evs w))"
  proof (rule run_invariant)
    show "?P w" using h by simp
  next
    fix ev w'
    assume "Rx ev \<in> set evs" and p: "?P w'"
    with h have "\<not> carries loads k (Rx ev)" by blast
    with p have "latest_data (rx_loop loads [ev] w') k = None"
      by (intro rx_loop_single_store) simp_all
    then show "?P (rx_loop loads [ev] w')"
      using p by (simp add: rx_loop_single del: rx_loop.simps)
  next
    fix t w'
    assume t: "Ui t \<in> set evs" and p: "?P w'"
    with h have ne: "t \<noteq> ''ESC''" by blast
    from h p have "latest_data w' (int_key IMU_SHOULDER_ID) = None
             \<or> latest_data w' (int_key IMU_FOREARM_ID) = None" by auto
    from modal_v1_closed_gate [OF this ne] p
    show "?P (reached (modal_v1 hst t w'))" by simp
  qed
  then show "objects (outcome (run (modal_v1 hst) loads evs w)) = objects w" by simp
next
  show "objects (snd (execute_link w)) = objects w"
    by (simp add: execute_link_def start_running_def Let_def split: option.splits)
next
  show "objects (snd (execute_v1 w)) = objects w"
    by (simp add: execute_v1_def start_running_def Let_def split: option.splits)
qed

theorem never_received_untouched_witness:
  \<open>latest_data sample_world_reading (int_key 1) = None
   \<and> bone_at
        (outcome (run (modal_link host_probe) json_loads_sample
           [Rx (Line ''{"id": 0, "q": [1.0, 0.0, 0.0, 0.0]}''), Ui ''TIMER'', Ui ''ESC'']
           sample_world_reading))
        ''Armature'' ''UpperArm.021'' = Some sample_bone
   \<and> objects
        (outcome (run (modal_v1 host_probe) json_loads_sample
           [Rx (Line ''{"id": 0, "q": [1.0, 0.0, 0.0, 0.0]}''), Ui ''TIMER'']
           sample_world_reading))
      = objects sample_world_reading\<close>
proof -
  have none: "latest_data sample_world_reading (int_key 1) = None"
    by (simp add: sample_world_reading_def int_key_def)
  have m: "(1, ''UpperArm.021'') \<in> set BONE_MAP" by (simp add: BONE_MAP_def)
  have c3: \<open>\<forall>ev \<in> set [Rx (Line ''{"id": 0, "q": [1.0, 0.0, 0.0, 0.0]}''), Ui ''TIMER'', Ui ''ESC''].
             \<not> carries json_loads_sample (int_key 1) ev\<close>
    by (simp add: carries_def sample_packet_0 int_key_def)
  have c2: \<open>\<forall>ev \<in> set [Rx (Line ''{"id": 0, "q": [1.0, 0.0, 0.0, 0.0]}''), Ui ''TIMER''].
             \<not> carries json_loads_sample (int_key 1) ev\<close>
    by (simp add: carries_def sample_packet_0 int_key_def)
  have noesc: \<open>Ui ''ESC'' \<notin> set [Rx (Line ''{"id": 0, "q": [1.0, 0.0, 0.0, 0.0]}''), Ui ''TIMER'']\<close>
    by simp
  have k: "int_key 1 = int_key IMU_SHOULDER_ID" by (simp add: IMU_SHOULDER_ID_def)
  have before: "bone_at sample_world_reading ''Armature'' ''UpperArm.021'' = Some sample_bone"
    by (simp add: bone_at_def sample_world_reading_def sample_world_def sample_rig_def
          sample_bones_def)
  from never_received_untouched [where sid = 1 and bn = "''UpperArm.021''"
      and w = sample_world_reading and loads = json_loads_sample and n = "''Armature''"
      and evs = \<open>[Rx (Line ''{"id": 0, "q": [1.0, 0.0, 0.0, 0.0]}''), Ui ''TIMER'', Ui ''ESC'']\<close>]
    m none c3 before
  have link: \<open>bone_at
        (outcome (run (modal_link host_probe) json_loads_sample
           [Rx (Line ''{"id": 0, "q": [1.0, 0.0, 0.0, 0.0]}''), Ui ''TIMER'', Ui ''ESC'']
           sample_world_reading))
        ''Armature'' ''UpperArm.021'' = Some sample_bone\<close>
    by simp
  from never_received_untouched [where k = "int_key 1"
      and w = sample_world_reading and loads = json_loads_sample
      and hst = host_probe
      and evs = \<open>[Rx (Line ''{"id": 0, "q": [1.0, 0.0, 0.0, 0.0]}''), Ui ''TIMER'']\<close>]
    k none c2 noesc
  have retarget: \<open>objects
        (outcome (run (modal_v1 host_probe) json_loads_sample
           [Rx (Line ''{"id": 0, "q": [1.0, 0.0, 0.0, 0.0]}''), Ui ''TIMER'']
           sample_world_reading))
      = objects sample_world_reading\<close>
    by blast
  from none link retarget show ?thesis by blast
qed

text \<open>
  The claim C4 as stated fails at stop in the Retarget Stage: with no packet ever
  received, a tick followed by \<^verbatim>\<open>ESC\<close> moves the Z component of the Base bone from 3
  to the home angle 0.
\<close>

theorem never_received_counterexample:
  "latest_data sample_world (int_key IMU_SHOULDER_ID) = None
   \<and> latest_data sample_world (int_key IMU_FOREARM_ID) = None
   \<and> bone_at sample_world ''Armature'' ''UpperArm.008'' = Some sample_bone
   \<and> bone_at
        (outcome (run (modal_v1 host_probe) json_loads_sample
           [Ui ''TIMER'', Ui ''ESC''] sample_world))
        ''Armature'' ''UpperArm.008'' = Some (joint_write host_probe ''Z'' 0 sample_bone)
   \<and> ez (rotation_euler sample_bone) = 3
   \<and> ez (rotation_euler (joint_write host_probe ''Z'' 0 sample_bone)) = 0"
proof -
  have none: "latest_data sample_world (int_key IMU_SHOULDER_ID) = None"
    "latest_data sample_world (int_key IMU_FOREARM_ID) = None"
    by (simp_all add: sample_world_def)
  have before: "bone_at sample_world ''Armature'' ''UpperArm.008'' = Some sample_bone"
    by (simp add: bone_at_def sample_world_def sample_rig_def sample_bones_def)
  have tick: "modal_v1 host_probe ''TIMER'' sample_world = Inr (PASS_THROUGH, sample_world)"
    using none by (intro modal_v1_gate) simp
  have h: "timer sample_world = Some 1"
    "objects sample_world (armature_name sample_world) = Some sample_rig"
    "pose sample_rig = Some sample_bones"
    by (simp_all add: sample_world_def sample_rig_def)
  from cancel_v1_reset [OF h] obtain bones' where
    r: "cancel_v1 host_probe sample_world =
             Inr (CANCELLED,
                  sample_world\<lparr>is_running := False,
                    wm_timers := removeAll 1 (wm_timers sample_world),
                    objects := (objects sample_world)(armature_name sample_world
                                  \<mapsto> sample_rig\<lparr>pose := Some bones'\<rparr>)\<rparr>)"
    and u: "\<forall>j b a. (j, b, a) \<in> set JOINT_MAP
                 \<longrightarrow> bones' b = map_option (joint_write host_probe a (home_angle j)) (sample_bones b)"
    by blast
  from u have b: "bones' ''UpperArm.008'' = Some (joint_write host_probe ''Z'' 0 sample_bone)"
    by (simp add: JOINT_MAP_def home_angle_def INITIAL_POSE_def radians_def sample_bones_def)
  have esc: "modal_v1 host_probe ''ESC'' sample_world = cancel_v1 host_probe sample_world"
    by (simp add: modal_v1_def)
  have n: "armature_name sample_world = ''Armature''" by (simp add: sample_world_def)
  have after: "bone_at
        (outcome (run (modal_v1 host_probe) json_loads_sample
           [Ui ''TIMER'', Ui ''ESC''] sample_world))
        ''Armature'' ''UpperArm.008'' = Some (joint_write host_probe ''Z'' 0 sample_bone)"
    using b by (simp add: tick esc r outcome_def bone_at_def n)
  have z: "ez (rotation_euler sample_bone) = 3"
    "ez (rotation_euler (joint_write host_probe ''Z'' 0 sample_bone)) = 0"
    by (simp_all add: sample_bone_def joint_write_def Let_def set_axis_def)
  from none before after z show ?thesis by blast
qed

section \<open>What reaches the pose updater\<close>

lemma handle_line_changes:
  assumes "latest_data (handle_line loads raw w) \<noteq> latest_data w
             \<or> packet_count (handle_line loads raw w) \<noteq> packet_count w"
  shows "\<exists>kvs i q k.
           startswith (strip raw) ''{'' \<and> endswith (strip raw) ''}''
           \<and> loads (strip raw) = Some (JObj kvs)
           \<and> dict_get kvs ''id'' = Some i \<and> dict_get kvs ''q'' = Some q \<and> py_key i = Some k
           \<and> handle_line loads raw w =
               w\<lparr>latest_data := (latest_data w)(k \<mapsto> q), packet_count := packet_count w + 1\<rparr>"
proof -
  from assms have ne: "handle_line loads raw w \<noteq> w" by auto
  then have br: "startswith (strip raw) ''{'' \<and> endswith (strip raw) ''}''"
    by (auto simp: handle_line_def Let_def split: if_splits)
  with ne obtain data where data: "loads (strip raw) = Some data"
    and st: "store_packet data w \<noteq> w" and eq: "handle_line loads raw w = store_packet data w"
    by (auto simp: handle_line_def Let_def split: option.splits)
  from st obtain kvs where kvs: "data = JObj kvs"
    by (cases data) (auto simp: store_packet_def)
  from st kvs obtain i where i: "dict_get kvs ''id'' = Some i"
    by (cases "dict_get kvs ''id''") (auto simp: store_packet_def)
  from st kvs i obtain q where q: "dict_get kvs ''q'' = Some q"
    by (cases "dict_get kvs ''q''") (auto simp: store_packet_def)
  from st kvs i q obtain k where k: "py_key i = Some k"
    by (cases "py_key i") (auto simp: store_packet_def)
  have "store_packet data w =
          w\<lparr>latest_data := (latest_data w)(k \<mapsto> q), packet_count := packet_count w + 1\<rparr>"
    using kvs i q k by (simp add: store_packet_def)
  with br data kvs i q k eq show ?thesis by auto
qed

lemma handle_line_stores:
  assumes "startswith (strip raw) ''{'' \<and> endswith (strip raw) ''}''"
    and "loads (strip raw) = Some (JObj kvs)"
    and "dict_get kvs ''id'' = Some i" and "dict_get kvs ''q'' = Some q" and "py_key i = Some k"
  shows "handle_line loads raw w =
           w\<lparr>latest_data := (latest_data w)(k \<mapsto> q), packet_count := packet_count w + 1\<rparr>"
  using assms by (simp add: handle_line_def store_packet_def Let_def)

text \<open>
  The claim C5 as stated fails: the line \<^verbatim>\<open>{"id": 0, "q": [1, 2, 3]}\<close> is stored, the
  entry for sensor 0 is then a list of three numbers, and the next tick of the Link
  Stage raises \<^verbatim>\<open>ValueError\<close> at the unpacking.
\<close>

theorem unvalidated_entry_counterexample:
  "latest_data short_packet_world (int_key 0) = Some (JArr [JInt 1, JInt 2, JInt 3])
   \<and> \<not> is_rotation4 (JArr [JInt 1, JInt 2, JInt 3])
   \<and> modal_link host_probe ''TIMER'' short_packet_world = Inl (ValueError, short_packet_world)"
proof -
  have w: "short_packet_world =
             sample_world\<lparr>latest_data := (latest_data sample_world)(KNum 0 \<mapsto> JArr [JInt 1, JInt 2, JInt 3]),
                          packet_count := packet_count sample_world + 1\<rparr>"
    by (simp add: short_packet_world_def handle_line_packet_of sample_packet_short)
       (simp add: sample_world_def)
  have d: "latest_data short_packet_world (int_key 0) = Some (JArr [JInt 1, JInt 2, JInt 3])"
    by (simp add: w int_key_def)
  have n: "\<not> is_rotation4 (JArr [JInt 1, JInt 2, JInt 3])"
    by (simp add: is_rotation4_def)
  have o: "objects short_packet_world (armature_name short_packet_world) = Some sample_rig"
    by (simp add: w sample_world_def)
  have l: "link_bones host_probe (latest_data short_packet_world) BONE_MAP sample_rig
             = Inl (ValueError, sample_rig)"
    using d
    by (simp add: BONE_MAP_def sample_rig_def sample_bones_def link_rotation_def unpack4_def)
  have u: "(objects short_packet_world)(armature_name short_packet_world \<mapsto> sample_rig)
             = objects short_packet_world"
    using o by (rule map_upd_triv)
  have "modal_link host_probe ''TIMER'' short_packet_world = Inl (ValueError, short_packet_world)"
    by (simp add: modal_link_def o l u)
  with d n show ?thesis by blast
qed

section \<open>The angles a tick writes\<close>

lemma py_float_JNum: "py_float (JNum r) = Inr r"
  by (simp add: py_float_def)

lemma euler_components:
  "ex e = x \<Longrightarrow> ey e = y \<Longrightarrow> ez e = z \<Longrightarrow> e = \<lparr>ex = x, ey = y, ez = z\<rparr>"
  by (cases e) simp

lemma sample_both_hyps:
  "objects sample_world_both (armature_name sample_world_both) = Some sample_rig"
  "pose sample_rig = Some sample_bones"
  "latest_data sample_world_both (int_key IMU_SHOULDER_ID)
     = Some (JArr (JNum 1 # JNum 2 # JNum 3 # JNum 4 # []))"
  "latest_data sample_world_both (int_key IMU_FOREARM_ID)
     = Some (JArr (JNum 5 # JNum 7 # JNum 11 # JNum 13 # []))"
  "armature_name sample_world_both = ''Armature''"
  by (simp_all add: sample_world_both_def sample_world_def sample_rig_def
        int_key_def IMU_SHOULDER_ID_def IMU_FOREARM_ID_def)

lemma sample_euler_hyps:
  "objects sample_world_euler (armature_name sample_world_euler) = Some sample_rig_euler"
  "pose sample_rig_euler = Some sample_bones_euler"
  "latest_data sample_world_euler (int_key IMU_SHOULDER_ID)
     = Some (JArr (JNum 1 # JNum 2 # JNum 3 # JNum 4 # []))"
  "latest_data sample_world_euler (int_key IMU_FOREARM_ID)
     = Some (JArr (JNum 5 # JNum 7 # JNum 11 # JNum 13 # []))"
  "armature_name sample_world_euler = ''Armature''"
  by (simp_all add: sample_world_euler_def sample_world_both_def sample_world_def
        sample_rig_euler_def int_key_def IMU_SHOULDER_ID_def IMU_FOREARM_ID_def)

lemma sample_bones_all: "\<forall>(j, b, a) \<in> set JOINT_MAP. sample_bones b \<noteq> None"
  by (simp add: JOINT_MAP_def sample_bones_def)

text \<open>
  The definitions that a closed evaluation of \<^verbatim>\<open>modal\<close> of the Retarget Stage unfolds.
\<close>

lemmas tick_eval =
  modal_v1_def raw_quaternion_def subscript_def Quaternion_def py_float_def
  target_angles_def joint_write_def set_rotation_mode_def euler_modes_def set_axis_def
  JOINT_MAP_def IMU_SHOULDER_ID_def IMU_FOREARM_ID_def int_key_def Let_def
  reached_def pose_angles_def bone_at_def euler_axis_def

lemmas sample_eval =
  sample_world_both_def sample_world_shoulder_def sample_world_euler_def
  sample_world_data_def sample_data_def sample_world_def
  sample_rig_def sample_rig_euler_def sample_bones_def sample_bones_euler_def
  sample_bone_def sample_bone_euler_def host_probe_def host_scenario_def

text \<open>
  C3. The gate of the Retarget Stage. On a tick where the shoulder id or the forearm id
  has no entry in \<open>latest_data\<close>, \<^verbatim>\<open>modal\<close> returns with the state unchanged: no
  joint is written. On a tick where both entries are present, lists that begin with
  four numbers, and the armature is resolved, the same call writes every joint of
  \<open>JOINT_MAP\<close> whose bone the armature has: after it the bone is in mode \<^verbatim>\<open>'XYZ'\<close>
  and the component of its Euler triple on the joint's axis is the joint's target angle,
  computed from the two readings.
\<close>

theorem retarget_all_or_nothing:
  "(latest_data w (int_key IMU_SHOULDER_ID) = None
      \<or> latest_data w (int_key IMU_FOREARM_ID) = None
    \<longrightarrow> modal_v1 hst ''TIMER'' w = Inr (PASS_THROUGH, w))
   \<and> (objects w (armature_name w) = Some obj \<and> pose obj = Some bones
        \<and> latest_data w (int_key IMU_SHOULDER_ID) = Some (JArr (a1 # b1 # c1 # d1 # rest1))
        \<and> py_float a1 = Inr w1 \<and> py_float b1 = Inr x1
        \<and> py_float c1 = Inr y1 \<and> py_float d1 = Inr z1
        \<and> latest_data w (int_key IMU_FOREARM_ID) = Some (JArr (a2 # b2 # c2 # d2 # rest2))
        \<and> py_float a2 = Inr w2 \<and> py_float b2 = Inr x2
        \<and> py_float c2 = Inr y2 \<and> py_float d2 = Inr z2
    \<longrightarrow> (\<exists>w'. modal_v1 hst ''TIMER'' w = Inr (PASS_THROUGH, w')
           \<and> (\<forall>(j, b, a) \<in> set JOINT_MAP. bones b \<noteq> None
                \<longrightarrow> (\<exists>p'. bone_at w' (armature_name w) b = Some p'
                         \<and> rotation_mode p' = ''XYZ''
                         \<and> map_of (target_angles
                                     (to_euler hst ''ZYX'' \<lparr>qw = w1, qx = x1, qy = y1, qz = z1\<rparr>)
                                     (to_euler hst ''ZYX'' \<lparr>qw = w2, qx = x2, qy = y2, qz = z2\<rparr>)) j
                             = Some (euler_axis a (rotation_euler p'))))))"
proof (intro conjI impI)
  assume "latest_data w (int_key IMU_SHOULDER_ID) = None
            \<or> latest_data w (int_key IMU_FOREARM_ID) = None"
  then show "modal_v1 hst ''TIMER'' w = Inr (PASS_THROUGH, w)"
    by (auto simp: modal_v1_def split: option.splits)
next
  let ?q1 = "\<lparr>qw = w1, qx = x1, qy = y1, qz = z1\<rparr>"
  let ?q2 = "\<lparr>qw = w2, qx = x2, qy = y2, qz = z2\<rparr>"
  let ?ta = "target_angles (to_euler hst ''ZYX'' ?q1) (to_euler hst ''ZYX'' ?q2)"
  assume hyp: "objects w (armature_name w) = Some obj \<and> pose obj = Some bones
        \<and> latest_data w (int_key IMU_SHOULDER_ID) = Some (JArr (a1 # b1 # c1 # d1 # rest1))
        \<and> py_float a1 = Inr w1 \<and> py_float b1 = Inr x1
        \<and> py_float c1 = Inr y1 \<and> py_float d1 = Inr z1
        \<and> latest_data w (int_key IMU_FOREARM_ID) = Some (JArr (a2 # b2 # c2 # d2 # rest2))
        \<and> py_float a2 = Inr w2 \<and> py_float b2 = Inr x2
        \<and> py_float c2 = Inr y2 \<and> py_float d2 = Inr z2"
  then have obj: "objects w (armature_name w) = Some obj" and bones: "pose obj = Some bones"
    and r1: "latest_data w (int_key IMU_SHOULDER_ID) = Some (JArr (a1 # b1 # c1 # d1 # rest1))"
    and r2: "latest_data w (int_key IMU_FOREARM_ID) = Some (JArr (a2 # b2 # c2 # d2 # rest2))"
    by simp_all
  from hyp have q1: "raw_quaternion (JArr (a1 # b1 # c1 # d1 # rest1)) = Inr ?q1"
    by (simp add: raw_quaternion_def subscript_def Quaternion_def)
  from hyp have q2: "raw_quaternion (JArr (a2 # b2 # c2 # d2 # rest2)) = Inr ?q2"
    by (simp add: raw_quaternion_def subscript_def Quaternion_def)
  from modal_v1_tick [OF obj bones r1 r2 q1 q2, of hst] obtain bones' where
    r: "modal_v1 hst ''TIMER'' w =
          Inr (PASS_THROUGH,
               w\<lparr>objects := (objects w)(armature_name w \<mapsto> obj\<lparr>pose := Some bones'\<rparr>)\<rparr>)"
    and u: "\<forall>j b a ang. (j, b, a) \<in> set JOINT_MAP \<longrightarrow> map_of ?ta j = Some ang
              \<longrightarrow> bones' b = map_option (joint_write hst a ang) (bones b)"
    by blast
  let ?w' = "w\<lparr>objects := (objects w)(armature_name w \<mapsto> obj\<lparr>pose := Some bones'\<rparr>)\<rparr>"
  have "\<forall>(j, b, a) \<in> set JOINT_MAP. bones b \<noteq> None
          \<longrightarrow> (\<exists>p'. bone_at ?w' (armature_name w) b = Some p'
                   \<and> rotation_mode p' = ''XYZ''
                   \<and> map_of ?ta j = Some (euler_axis a (rotation_euler p')))"
  proof clarify
    fix j b a p
    assume m: "(j, b, a) \<in> set JOINT_MAP" and p: "bones b = Some p"
    from m have ang: "\<exists>ang. map_of ?ta j = Some ang"
      by (auto simp: JOINT_MAP_def target_angles_def Let_def)
    then obtain ang where ang: "map_of ?ta j = Some ang" ..
    with u m p have "bones' b = Some (joint_write hst a ang p)" by simp
    then have "bone_at ?w' (armature_name w) b = Some (joint_write hst a ang p)"
      by (simp add: bone_at_def)
    moreover have "rotation_mode (joint_write hst a ang p) = ''XYZ''"
      by (simp add: joint_write_def set_rotation_mode_def Let_def)
    moreover from m have "euler_axis a (rotation_euler (joint_write hst a ang p)) = ang"
      by (auto simp: JOINT_MAP_def joint_write_def Let_def set_axis_def euler_axis_def)
    ultimately show "\<exists>p'. bone_at ?w' (armature_name w) b = Some p'
                   \<and> rotation_mode p' = ''XYZ''
                   \<and> map_of ?ta j = Some (euler_axis a (rotation_euler p'))"
      using ang by auto
  qed
  with r show "\<exists>w'. modal_v1 hst ''TIMER'' w = Inr (PASS_THROUGH, w')
           \<and> (\<forall>(j, b, a) \<in> set JOINT_MAP. bones b \<noteq> None
                \<longrightarrow> (\<exists>p'. bone_at w' (armature_name w) b = Some p'
                         \<and> rotation_mode p' = ''XYZ''
                         \<and> map_of ?ta j = Some (euler_axis a (rotation_euler p'))))"
    by blast
qed

theorem retarget_all_or_nothing_witness:
  "latest_data sample_world_shoulder (int_key IMU_SHOULDER_ID)
     = Some (JArr [JNum 1, JNum 2, JNum 3, JNum 4])
   \<and> latest_data sample_world_shoulder (int_key IMU_FOREARM_ID) = None
   \<and> modal_v1 host_probe ''TIMER'' sample_world_shoulder
       = Inr (PASS_THROUGH, sample_world_shoulder)
   \<and> pose_angles (reached (modal_v1 host_probe ''TIMER'' sample_world_shoulder)) ''Armature'' =
       [(''Base'', Some (''QUATERNION'', 3)), (''Shoulder'', Some (''QUATERNION'', 1)),
        (''Elbow'', Some (''QUATERNION'', 1)), (''Wrist'', Some (''QUATERNION'', 2)),
        (''Wrist_2'', Some (''QUATERNION'', 1)), (''Gripper'', Some (''QUATERNION'', 2))]
   \<and> pose_angles sample_world_both ''Armature'' =
       [(''Base'', Some (''QUATERNION'', 3)), (''Shoulder'', Some (''QUATERNION'', 1)),
        (''Elbow'', Some (''QUATERNION'', 1)), (''Wrist'', Some (''QUATERNION'', 2)),
        (''Wrist_2'', Some (''QUATERNION'', 1)), (''Gripper'', Some (''QUATERNION'', 2))]
   \<and> (\<exists>w'. modal_v1 host_probe ''TIMER'' sample_world_both = Inr (PASS_THROUGH, w')
         \<and> pose_angles w' ''Armature'' =
             [(''Base'', Some (''XYZ'', 4)), (''Shoulder'', Some (''XYZ'', 3)),
              (''Elbow'', Some (''XYZ'', 8)), (''Wrist'', Some (''XYZ'', 5)),
              (''Wrist_2'', Some (''XYZ'', 0)), (''Gripper'', Some (''XYZ'', 7))])
   \<and> pose_angles (reached (modal_v1 host_probe ''TIMER'' sample_world_both)) ''Armature'' =
       [(''Base'', Some (''XYZ'', 4)), (''Shoulder'', Some (''XYZ'', 3)),
        (''Elbow'', Some (''XYZ'', 8)), (''Wrist'', Some (''XYZ'', 5)),
        (''Wrist_2'', Some (''XYZ'', 0)), (''Gripper'', Some (''XYZ'', 7))]"
proof -
  have s1: "latest_data sample_world_shoulder (int_key IMU_SHOULDER_ID)
     = Some (JArr [JNum 1, JNum 2, JNum 3, JNum 4])"
    and s0: "latest_data sample_world_shoulder (int_key IMU_FOREARM_ID) = None"
    by (simp_all add: sample_world_shoulder_def int_key_def IMU_SHOULDER_ID_def
          IMU_FOREARM_ID_def)
  note closed = retarget_all_or_nothing [where w = sample_world_shoulder and hst = host_probe]
  from closed s0 have g: "modal_v1 host_probe ''TIMER'' sample_world_shoulder
       = Inr (PASS_THROUGH, sample_world_shoulder)"
    by blast
  have before: "pose_angles sample_world_both ''Armature'' =
       [(''Base'', Some (''QUATERNION'', 3)), (''Shoulder'', Some (''QUATERNION'', 1)),
        (''Elbow'', Some (''QUATERNION'', 1)), (''Wrist'', Some (''QUATERNION'', 2)),
        (''Wrist_2'', Some (''QUATERNION'', 1)), (''Gripper'', Some (''QUATERNION'', 2))]"
    by (simp add: tick_eval sample_eval)
  note inst = retarget_all_or_nothing [where w = sample_world_both and hst = host_probe
      and obj = sample_rig and bones = sample_bones
      and ?a1.0 = "JNum 1" and ?b1.0 = "JNum 2" and ?c1.0 = "JNum 3" and ?d1.0 = "JNum 4"
      and ?rest1.0 = "[]" and ?w1.0 = 1 and ?x1.0 = 2 and ?y1.0 = 3 and ?z1.0 = 4
      and ?a2.0 = "JNum 5" and ?b2.0 = "JNum 7" and ?c2.0 = "JNum 11" and ?d2.0 = "JNum 13"
      and ?rest2.0 = "[]" and ?w2.0 = 5 and ?x2.0 = 7 and ?y2.0 = 11 and ?z2.0 = 13]
  from inst sample_both_hyps(1-4) py_float_JNum
  obtain w' where r: "modal_v1 host_probe ''TIMER'' sample_world_both = Inr (PASS_THROUGH, w')"
    and u: "\<forall>(j, b, a) \<in> set JOINT_MAP. sample_bones b \<noteq> None
                \<longrightarrow> (\<exists>p'. bone_at w' (armature_name sample_world_both) b = Some p'
                         \<and> rotation_mode p' = ''XYZ''
                         \<and> map_of (target_angles
                                     (to_euler host_probe ''ZYX'' \<lparr>qw = 1, qx = 2, qy = 3, qz = 4\<rparr>)
                                     (to_euler host_probe ''ZYX'' \<lparr>qw = 5, qx = 7, qy = 11, qz = 13\<rparr>)) j
                             = Some (euler_axis a (rotation_euler p')))"
    by blast
  from u have after: "pose_angles w' ''Armature'' =
             [(''Base'', Some (''XYZ'', 4)), (''Shoulder'', Some (''XYZ'', 3)),
              (''Elbow'', Some (''XYZ'', 8)), (''Wrist'', Some (''XYZ'', 5)),
              (''Wrist_2'', Some (''XYZ'', 0)), (''Gripper'', Some (''XYZ'', 7))]"
    by (auto simp: pose_angles_def JOINT_MAP_def sample_bones_def sample_both_hyps(5)
          target_angles_def Let_def host_probe_def)
  have direct:
    "pose_angles (reached (modal_v1 host_probe ''TIMER'' sample_world_both)) ''Armature'' =
       [(''Base'', Some (''XYZ'', 4)), (''Shoulder'', Some (''XYZ'', 3)),
        (''Elbow'', Some (''XYZ'', 8)), (''Wrist'', Some (''XYZ'', 5)),
        (''Wrist_2'', Some (''XYZ'', 0)), (''Gripper'', Some (''XYZ'', 7))]"
    by (simp add: tick_eval sample_eval)
  have direct_shoulder:
    "pose_angles (reached (modal_v1 host_probe ''TIMER'' sample_world_shoulder)) ''Armature'' =
       [(''Base'', Some (''QUATERNION'', 3)), (''Shoulder'', Some (''QUATERNION'', 1)),
        (''Elbow'', Some (''QUATERNION'', 1)), (''Wrist'', Some (''QUATERNION'', 2)),
        (''Wrist_2'', Some (''QUATERNION'', 1)), (''Gripper'', Some (''QUATERNION'', 2))]"
    by (simp add: tick_eval sample_eval)
  from s1 s0 g direct_shoulder before r after direct show ?thesis by blast
qed

text \<open>
  C1. The six target angles of the Retarget Stage. From the Euler triples \<open>e1\<close> of the
  shoulder sensor and \<open>e2\<close> of the forearm sensor: Base is the Z component (yaw) of
  \<open>e1\<close>, Shoulder its Y component (pitch), Elbow the pitch of \<open>e2\<close> minus the pitch
  of \<open>e1\<close>, Wrist the X component (roll) of \<open>e2\<close> minus the roll of \<open>e1\<close>,
  Wrist_2 is 0 and Gripper the roll of \<open>e2\<close>. On a tick with the armature resolved
  and holding the six bones, and with both readings present, the shoulder's the entry
  of sensor 1, a list beginning with the numbers \<open>w1, x1, y1, z1\<close>, and the forearm's
  the entry of sensor 0, a list beginning with the numbers \<open>w2, x2, y2, z2\<close>, the
  triples are the conversions in the order \<^verbatim>\<open>'ZYX'\<close> of the quaternions with these
  components, and after the tick the bone of each joint is in mode \<^verbatim>\<open>'XYZ'\<close> and
  holds the joint's angle on the joint's axis. When the conversions give yaw 30, pitch 10, roll 0 degrees for the shoulder and pitch 25,
  roll 5 degrees for the forearm, the six bones hold 30, 10, 15, 5, 0 and 5 degrees.
\<close>

theorem retarget_angles:
  "target_angles e1 e2 =
     [(''Base'', ez e1), (''Shoulder'', ey e1), (''Elbow'', ey e2 - ey e1),
      (''Wrist'', ex e2 - ex e1), (''Wrist_2'', 0), (''Gripper'', ex e2)]
   \<and> target_angles \<lparr>ex = radians 0, ey = radians 10, ez = radians 30\<rparr>
                    \<lparr>ex = radians 5, ey = radians 25, ez = yaw2\<rparr> =
     [(''Base'', radians 30), (''Shoulder'', radians 10), (''Elbow'', radians 15),
      (''Wrist'', radians 5), (''Wrist_2'', radians 0), (''Gripper'', radians 5)]
   \<and> (objects w (armature_name w) = Some obj \<and> pose obj = Some bones
        \<and> (\<forall>(j, b, a) \<in> set JOINT_MAP. bones b \<noteq> None)
        \<and> latest_data w (int_key 1) = Some (JArr (a1 # b1 # c1 # d1 # rest1))
        \<and> py_float a1 = Inr w1 \<and> py_float b1 = Inr x1
        \<and> py_float c1 = Inr y1 \<and> py_float d1 = Inr z1
        \<and> latest_data w (int_key 0) = Some (JArr (a2 # b2 # c2 # d2 # rest2))
        \<and> py_float a2 = Inr w2 \<and> py_float b2 = Inr x2
        \<and> py_float c2 = Inr y2 \<and> py_float d2 = Inr z2
        \<and> s = to_euler hst ''ZYX'' \<lparr>qw = w1, qx = x1, qy = y1, qz = z1\<rparr>
        \<and> f = to_euler hst ''ZYX'' \<lparr>qw = w2, qx = x2, qy = y2, qz = z2\<rparr>
      \<longrightarrow> (\<exists>w'. modal_v1 hst ''TIMER'' w = Inr (PASS_THROUGH, w')
             \<and> pose_angles w' (armature_name w) =
                 [(''Base'', Some (''XYZ'', ez s)), (''Shoulder'', Some (''XYZ'', ey s)),
                  (''Elbow'', Some (''XYZ'', ey f - ey s)),
                  (''Wrist'', Some (''XYZ'', ex f - ex s)),
                  (''Wrist_2'', Some (''XYZ'', 0)), (''Gripper'', Some (''XYZ'', ex f))]
             \<and> (s = \<lparr>ex = radians 0, ey = radians 10, ez = radians 30\<rparr>
                  \<and> ey f = radians 25 \<and> ex f = radians 5
                \<longrightarrow> pose_angles w' (armature_name w) =
                      [(''Base'', Some (''XYZ'', radians 30)),
                       (''Shoulder'', Some (''XYZ'', radians 10)),
                       (''Elbow'', Some (''XYZ'', radians 15)),
                       (''Wrist'', Some (''XYZ'', radians 5)),
                       (''Wrist_2'', Some (''XYZ'', 0)),
                       (''Gripper'', Some (''XYZ'', radians 5))])))"
proof (intro conjI impI)
  show "target_angles e1 e2 =
     [(''Base'', ez e1), (''Shoulder'', ey e1), (''Elbow'', ey e2 - ey e1),
      (''Wrist'', ex e2 - ex e1), (''Wrist_2'', 0), (''Gripper'', ex e2)]"
    by (simp add: target_angles_def Let_def)
next
  show "target_angles \<lparr>ex = radians 0, ey = radians 10, ez = radians 30\<rparr>
                    \<lparr>ex = radians 5, ey = radians 25, ez = yaw2\<rparr> =
     [(''Base'', radians 30), (''Shoulder'', radians 10), (''Elbow'', radians 15),
      (''Wrist'', radians 5), (''Wrist_2'', radians 0), (''Gripper'', radians 5)]"
    by (simp add: target_angles_def Let_def radians_def)
next
  let ?q1 = "\<lparr>qw = w1, qx = x1, qy = y1, qz = z1\<rparr>"
  let ?q2 = "\<lparr>qw = w2, qx = x2, qy = y2, qz = z2\<rparr>"
  assume hyp: "objects w (armature_name w) = Some obj \<and> pose obj = Some bones
        \<and> (\<forall>(j, b, a) \<in> set JOINT_MAP. bones b \<noteq> None)
        \<and> latest_data w (int_key 1) = Some (JArr (a1 # b1 # c1 # d1 # rest1))
        \<and> py_float a1 = Inr w1 \<and> py_float b1 = Inr x1
        \<and> py_float c1 = Inr y1 \<and> py_float d1 = Inr z1
        \<and> latest_data w (int_key 0) = Some (JArr (a2 # b2 # c2 # d2 # rest2))
        \<and> py_float a2 = Inr w2 \<and> py_float b2 = Inr x2
        \<and> py_float c2 = Inr y2 \<and> py_float d2 = Inr z2
        \<and> s = to_euler hst ''ZYX'' \<lparr>qw = w1, qx = x1, qy = y1, qz = z1\<rparr>
        \<and> f = to_euler hst ''ZYX'' \<lparr>qw = w2, qx = x2, qy = y2, qz = z2\<rparr>"
  then have obj: "objects w (armature_name w) = Some obj" and bones: "pose obj = Some bones"
    and r1: "latest_data w (int_key IMU_SHOULDER_ID) = Some (JArr (a1 # b1 # c1 # d1 # rest1))"
    and r2: "latest_data w (int_key IMU_FOREARM_ID) = Some (JArr (a2 # b2 # c2 # d2 # rest2))"
    and all: "\<forall>(j, b, a) \<in> set JOINT_MAP. bones b \<noteq> None"
    and s: "to_euler hst ''ZYX'' ?q1 = s" and f: "to_euler hst ''ZYX'' ?q2 = f"
    by (simp_all add: IMU_SHOULDER_ID_def IMU_FOREARM_ID_def)
  from hyp have q1: "raw_quaternion (JArr (a1 # b1 # c1 # d1 # rest1)) = Inr ?q1"
    by (simp add: raw_quaternion_def subscript_def Quaternion_def)
  from hyp have q2: "raw_quaternion (JArr (a2 # b2 # c2 # d2 # rest2)) = Inr ?q2"
    by (simp add: raw_quaternion_def subscript_def Quaternion_def)
  from modal_v1_tick [OF obj bones r1 r2 q1 q2, of hst] obtain bones' where
    r: "modal_v1 hst ''TIMER'' w =
          Inr (PASS_THROUGH,
               w\<lparr>objects := (objects w)(armature_name w \<mapsto> obj\<lparr>pose := Some bones'\<rparr>)\<rparr>)"
    and u: "\<forall>j b a ang. (j, b, a) \<in> set JOINT_MAP \<longrightarrow> map_of (target_angles s f) j = Some ang
              \<longrightarrow> bones' b = map_option (joint_write hst a ang) (bones b)"
    unfolding s f by blast
  let ?w' = "w\<lparr>objects := (objects w)(armature_name w \<mapsto> obj\<lparr>pose := Some bones'\<rparr>)\<rparr>"
  from all obtain p1 p2 p3 p4 p5 p6 where
    p: "bones ''UpperArm.008'' = Some p1" "bones ''UpperArm.015'' = Some p2"
      "bones ''UpperArm.018'' = Some p3" "bones ''UpperArm.019'' = Some p4"
      "bones ''UpperArm.020'' = Some p5" "bones ''UpperArm.021'' = Some p6"
    by (auto simp: JOINT_MAP_def)
  have b1: "bones' ''UpperArm.008'' = Some (joint_write hst ''Z'' (ez s) p1)"
    using u [rule_format, of "''Base''" "''UpperArm.008''" "''Z''" "ez s"]
    by (simp add: JOINT_MAP_def target_angles_def Let_def p)
  have b2: "bones' ''UpperArm.015'' = Some (joint_write hst ''X'' (ey s) p2)"
    using u [rule_format, of "''Shoulder''" "''UpperArm.015''" "''X''" "ey s"]
    by (simp add: JOINT_MAP_def target_angles_def Let_def p)
  have b3: "bones' ''UpperArm.018'' = Some (joint_write hst ''X'' (ey f - ey s) p3)"
    using u [rule_format, of "''Elbow''" "''UpperArm.018''" "''X''" "ey f - ey s"]
    by (simp add: JOINT_MAP_def target_angles_def Let_def p)
  have b4: "bones' ''UpperArm.019'' = Some (joint_write hst ''Y'' (ex f - ex s) p4)"
    using u [rule_format, of "''Wrist''" "''UpperArm.019''" "''Y''" "ex f - ex s"]
    by (simp add: JOINT_MAP_def target_angles_def Let_def p)
  have b5: "bones' ''UpperArm.020'' = Some (joint_write hst ''X'' 0 p5)"
    using u [rule_format, of "''Wrist_2''" "''UpperArm.020''" "''X''" 0]
    by (simp add: JOINT_MAP_def target_angles_def Let_def p)
  have b6: "bones' ''UpperArm.021'' = Some (joint_write hst ''Y'' (ex f) p6)"
    using u [rule_format, of "''Gripper''" "''UpperArm.021''" "''Y''" "ex f"]
    by (simp add: JOINT_MAP_def target_angles_def Let_def p)
  have a: "pose_angles ?w' (armature_name w) =
                 [(''Base'', Some (''XYZ'', ez s)), (''Shoulder'', Some (''XYZ'', ey s)),
                  (''Elbow'', Some (''XYZ'', ey f - ey s)),
                  (''Wrist'', Some (''XYZ'', ex f - ex s)),
                  (''Wrist_2'', Some (''XYZ'', 0)), (''Gripper'', Some (''XYZ'', ex f))]"
    by (simp add: pose_angles_def bone_at_def JOINT_MAP_def b1 b2 b3 b4 b5 b6
          joint_write_def set_rotation_mode_def Let_def set_axis_def euler_axis_def)
  have "s = \<lparr>ex = radians 0, ey = radians 10, ez = radians 30\<rparr>
                  \<and> ey f = radians 25 \<and> ex f = radians 5
                \<longrightarrow> pose_angles ?w' (armature_name w) =
                      [(''Base'', Some (''XYZ'', radians 30)),
                       (''Shoulder'', Some (''XYZ'', radians 10)),
                       (''Elbow'', Some (''XYZ'', radians 15)),
                       (''Wrist'', Some (''XYZ'', radians 5)),
                       (''Wrist_2'', Some (''XYZ'', 0)),
                       (''Gripper'', Some (''XYZ'', radians 5))]"
    by (auto simp: a radians_def)
  with r a show "\<exists>w'. modal_v1 hst ''TIMER'' w = Inr (PASS_THROUGH, w')
             \<and> pose_angles w' (armature_name w) =
                 [(''Base'', Some (''XYZ'', ez s)), (''Shoulder'', Some (''XYZ'', ey s)),
                  (''Elbow'', Some (''XYZ'', ey f - ey s)),
                  (''Wrist'', Some (''XYZ'', ex f - ex s)),
                  (''Wrist_2'', Some (''XYZ'', 0)), (''Gripper'', Some (''XYZ'', ex f))]
             \<and> (s = \<lparr>ex = radians 0, ey = radians 10, ez = radians 30\<rparr>
                  \<and> ey f = radians 25 \<and> ex f = radians 5
                \<longrightarrow> pose_angles w' (armature_name w) =
                      [(''Base'', Some (''XYZ'', radians 30)),
                       (''Shoulder'', Some (''XYZ'', radians 10)),
                       (''Elbow'', Some (''XYZ'', radians 15)),
                       (''Wrist'', Some (''XYZ'', radians 5)),
                       (''Wrist_2'', Some (''XYZ'', 0)),
                       (''Gripper'', Some (''XYZ'', radians 5))])"
    by blast
qed

theorem retarget_angles_witness:
  "latest_data sample_world_both (int_key 1) = Some (JArr [JNum 1, JNum 2, JNum 3, JNum 4])
   \<and> latest_data sample_world_both (int_key 0) = Some (JArr [JNum 5, JNum 7, JNum 11, JNum 13])
   \<and> to_euler host_probe ''ZYX'' \<lparr>qw = 1, qx = 2, qy = 3, qz = 4\<rparr> = \<lparr>ex = 2, ey = 3, ez = 4\<rparr>
   \<and> to_euler host_probe ''ZYX'' \<lparr>qw = 5, qx = 7, qy = 11, qz = 13\<rparr> = \<lparr>ex = 7, ey = 11, ez = 13\<rparr>
   \<and> (\<exists>w'. modal_v1 host_probe ''TIMER'' sample_world_both = Inr (PASS_THROUGH, w')
         \<and> pose_angles w' ''Armature'' =
             [(''Base'', Some (''XYZ'', 4)), (''Shoulder'', Some (''XYZ'', 3)),
              (''Elbow'', Some (''XYZ'', 8)), (''Wrist'', Some (''XYZ'', 5)),
              (''Wrist_2'', Some (''XYZ'', 0)), (''Gripper'', Some (''XYZ'', 7))])
   \<and> to_euler host_scenario ''ZYX'' \<lparr>qw = 1, qx = 2, qy = 3, qz = 4\<rparr>
       = \<lparr>ex = radians 0, ey = radians 10, ez = radians 30\<rparr>
   \<and> to_euler host_scenario ''ZYX'' \<lparr>qw = 5, qx = 7, qy = 11, qz = 13\<rparr>
       = \<lparr>ex = radians 5, ey = radians 25, ez = radians 0\<rparr>
   \<and> (\<exists>w'. modal_v1 host_scenario ''TIMER'' sample_world_both = Inr (PASS_THROUGH, w')
         \<and> pose_angles w' ''Armature'' =
             [(''Base'', Some (''XYZ'', radians 30)), (''Shoulder'', Some (''XYZ'', radians 10)),
              (''Elbow'', Some (''XYZ'', radians 15)), (''Wrist'', Some (''XYZ'', radians 5)),
              (''Wrist_2'', Some (''XYZ'', 0)), (''Gripper'', Some (''XYZ'', radians 5))])
   \<and> pose_angles (reached (modal_v1 host_probe ''TIMER'' sample_world_both)) ''Armature'' =
       [(''Base'', Some (''XYZ'', 4)), (''Shoulder'', Some (''XYZ'', 3)),
        (''Elbow'', Some (''XYZ'', 8)), (''Wrist'', Some (''XYZ'', 5)),
        (''Wrist_2'', Some (''XYZ'', 0)), (''Gripper'', Some (''XYZ'', 7))]
   \<and> pose_angles (reached (modal_v1 host_scenario ''TIMER'' sample_world_both)) ''Armature'' =
       [(''Base'', Some (''XYZ'', radians 30)), (''Shoulder'', Some (''XYZ'', radians 10)),
        (''Elbow'', Some (''XYZ'', radians 15)), (''Wrist'', Some (''XYZ'', radians 5)),
        (''Wrist_2'', Some (''XYZ'', 0)), (''Gripper'', Some (''XYZ'', radians 5))]"
proof -
  have d: "latest_data sample_world_both (int_key 1) = Some (JArr [JNum 1, JNum 2, JNum 3, JNum 4])"
    "latest_data sample_world_both (int_key 0) = Some (JArr [JNum 5, JNum 7, JNum 11, JNum 13])"
    using sample_both_hyps(3,4) by (simp_all add: IMU_SHOULDER_ID_def IMU_FOREARM_ID_def)
  have p: "to_euler host_probe ''ZYX'' \<lparr>qw = 1, qx = 2, qy = 3, qz = 4\<rparr> = \<lparr>ex = 2, ey = 3, ez = 4\<rparr>"
    "to_euler host_probe ''ZYX'' \<lparr>qw = 5, qx = 7, qy = 11, qz = 13\<rparr> = \<lparr>ex = 7, ey = 11, ez = 13\<rparr>"
    by (simp_all add: host_probe_def)
  have sc: "to_euler host_scenario ''ZYX'' \<lparr>qw = 1, qx = 2, qy = 3, qz = 4\<rparr>
       = \<lparr>ex = radians 0, ey = radians 10, ez = radians 30\<rparr>"
    "to_euler host_scenario ''ZYX'' \<lparr>qw = 5, qx = 7, qy = 11, qz = 13\<rparr>
       = \<lparr>ex = radians 5, ey = radians 25, ez = radians 0\<rparr>"
    by (simp_all add: host_scenario_def)
  note common = sample_both_hyps(1,2) sample_bones_all d py_float_JNum
  have hp: "objects sample_world_both (armature_name sample_world_both) = Some sample_rig
        \<and> pose sample_rig = Some sample_bones
        \<and> (\<forall>(j, b, a) \<in> set JOINT_MAP. sample_bones b \<noteq> None)
        \<and> latest_data sample_world_both (int_key 1) = Some (JArr (JNum 1 # JNum 2 # JNum 3 # JNum 4 # []))
        \<and> py_float (JNum 1) = Inr 1 \<and> py_float (JNum 2) = Inr 2
        \<and> py_float (JNum 3) = Inr 3 \<and> py_float (JNum 4) = Inr 4
        \<and> latest_data sample_world_both (int_key 0) = Some (JArr (JNum 5 # JNum 7 # JNum 11 # JNum 13 # []))
        \<and> py_float (JNum 5) = Inr 5 \<and> py_float (JNum 7) = Inr 7
        \<and> py_float (JNum 11) = Inr 11 \<and> py_float (JNum 13) = Inr 13
        \<and> \<lparr>ex = 2, ey = 3, ez = 4\<rparr> = to_euler host_probe ''ZYX'' \<lparr>qw = 1, qx = 2, qy = 3, qz = 4\<rparr>
        \<and> \<lparr>ex = 7, ey = 11, ez = 13\<rparr> = to_euler host_probe ''ZYX'' \<lparr>qw = 5, qx = 7, qy = 11, qz = 13\<rparr>"
    using common p by simp
  note probe = retarget_angles [where w = sample_world_both and hst = host_probe
      and obj = sample_rig and bones = sample_bones
      and ?a1.0 = "JNum 1" and ?b1.0 = "JNum 2" and ?c1.0 = "JNum 3" and ?d1.0 = "JNum 4"
      and ?rest1.0 = "[]" and ?w1.0 = 1 and ?x1.0 = 2 and ?y1.0 = 3 and ?z1.0 = 4
      and ?a2.0 = "JNum 5" and ?b2.0 = "JNum 7" and ?c2.0 = "JNum 11" and ?d2.0 = "JNum 13"
      and ?rest2.0 = "[]" and ?w2.0 = 5 and ?x2.0 = 7 and ?y2.0 = 11 and ?z2.0 = 13
      and s = "\<lparr>ex = 2, ey = 3, ez = 4\<rparr>" and f = "\<lparr>ex = 7, ey = 11, ez = 13\<rparr>",
      THEN conjunct2, THEN conjunct2, THEN mp, OF hp]
  from probe
  obtain w' where r: "modal_v1 host_probe ''TIMER'' sample_world_both = Inr (PASS_THROUGH, w')"
    and a': "pose_angles w' ''Armature'' =
             [(''Base'', Some (''XYZ'', 4)), (''Shoulder'', Some (''XYZ'', 3)),
              (''Elbow'', Some (''XYZ'', 8)), (''Wrist'', Some (''XYZ'', 5)),
              (''Wrist_2'', Some (''XYZ'', 0)), (''Gripper'', Some (''XYZ'', 7))]"
    by (auto simp: sample_both_hyps(5))
  have hs: "objects sample_world_both (armature_name sample_world_both) = Some sample_rig
        \<and> pose sample_rig = Some sample_bones
        \<and> (\<forall>(j, b, a) \<in> set JOINT_MAP. sample_bones b \<noteq> None)
        \<and> latest_data sample_world_both (int_key 1) = Some (JArr (JNum 1 # JNum 2 # JNum 3 # JNum 4 # []))
        \<and> py_float (JNum 1) = Inr 1 \<and> py_float (JNum 2) = Inr 2
        \<and> py_float (JNum 3) = Inr 3 \<and> py_float (JNum 4) = Inr 4
        \<and> latest_data sample_world_both (int_key 0) = Some (JArr (JNum 5 # JNum 7 # JNum 11 # JNum 13 # []))
        \<and> py_float (JNum 5) = Inr 5 \<and> py_float (JNum 7) = Inr 7
        \<and> py_float (JNum 11) = Inr 11 \<and> py_float (JNum 13) = Inr 13
        \<and> \<lparr>ex = radians 0, ey = radians 10, ez = radians 30\<rparr> = to_euler host_scenario ''ZYX'' \<lparr>qw = 1, qx = 2, qy = 3, qz = 4\<rparr>
        \<and> \<lparr>ex = radians 5, ey = radians 25, ez = radians 0\<rparr> = to_euler host_scenario ''ZYX'' \<lparr>qw = 5, qx = 7, qy = 11, qz = 13\<rparr>"
    using common sc by simp
  note scen = retarget_angles [where w = sample_world_both and hst = host_scenario
      and obj = sample_rig and bones = sample_bones
      and ?a1.0 = "JNum 1" and ?b1.0 = "JNum 2" and ?c1.0 = "JNum 3" and ?d1.0 = "JNum 4"
      and ?rest1.0 = "[]" and ?w1.0 = 1 and ?x1.0 = 2 and ?y1.0 = 3 and ?z1.0 = 4
      and ?a2.0 = "JNum 5" and ?b2.0 = "JNum 7" and ?c2.0 = "JNum 11" and ?d2.0 = "JNum 13"
      and ?rest2.0 = "[]" and ?w2.0 = 5 and ?x2.0 = 7 and ?y2.0 = 11 and ?z2.0 = 13
      and s = "\<lparr>ex = radians 0, ey = radians 10, ez = radians 30\<rparr>" and f = "\<lparr>ex = radians 5, ey = radians 25, ez = radians 0\<rparr>",
      THEN conjunct2, THEN conjunct2, THEN mp, OF hs]
  from scen
  obtain v' where r2: "modal_v1 host_scenario ''TIMER'' sample_world_both = Inr (PASS_THROUGH, v')"
    and s2': "pose_angles v' ''Armature'' =
             [(''Base'', Some (''XYZ'', radians 30)), (''Shoulder'', Some (''XYZ'', radians 10)),
              (''Elbow'', Some (''XYZ'', radians 15)), (''Wrist'', Some (''XYZ'', radians 5)),
              (''Wrist_2'', Some (''XYZ'', 0)), (''Gripper'', Some (''XYZ'', radians 5))]"
    by (auto simp: sample_both_hyps(5))
  have direct:
    "pose_angles (reached (modal_v1 host_probe ''TIMER'' sample_world_both)) ''Armature'' =
       [(''Base'', Some (''XYZ'', 4)), (''Shoulder'', Some (''XYZ'', 3)),
        (''Elbow'', Some (''XYZ'', 8)), (''Wrist'', Some (''XYZ'', 5)),
        (''Wrist_2'', Some (''XYZ'', 0)), (''Gripper'', Some (''XYZ'', 7))]"
    by (simp add: tick_eval sample_eval)
  have direct_scenario:
    "pose_angles (reached (modal_v1 host_scenario ''TIMER'' sample_world_both)) ''Armature'' =
       [(''Base'', Some (''XYZ'', radians 30)), (''Shoulder'', Some (''XYZ'', radians 10)),
        (''Elbow'', Some (''XYZ'', radians 15)), (''Wrist'', Some (''XYZ'', radians 5)),
        (''Wrist_2'', Some (''XYZ'', 0)), (''Gripper'', Some (''XYZ'', radians 5))]"
    by (simp add: tick_eval sample_eval radians_def)
  from d p r a' sc r2 s2' direct direct_scenario show ?thesis by blast
qed

text \<open>
  C9, as amended. On a tick of the Retarget Stage with the armature resolved and both
  entries present, lists that begin with four numbers, the update of a joint of
  \<open>JOINT_MAP\<close> whose bone the armature has puts the bone in mode \<^verbatim>\<open>'XYZ'\<close> and
  sets the component of the bone's Euler triple on the joint's configured axis to the
  joint's target angle, computed from the two readings. When
  the bone was already in an Euler mode, the components on the other two axes, the
  quaternion and the axis with angle are as they were before the tick. When the bone
  was in quaternion mode, the components on the other two axes are those of the Euler
  triple into which the host converts the bone's normalised quaternion at the
  assignment of the mode.
\<close>

theorem joint_update_single_axis:
  assumes j: "(j, b, a) \<in> set JOINT_MAP"
    and obj: "objects w (armature_name w) = Some obj"
    and bones: "pose obj = Some bones"
    and pb: "bones b = Some p_bone"
    and r1: "latest_data w (int_key IMU_SHOULDER_ID) = Some (JArr (a1 # b1 # c1 # d1 # rest1))"
    and f1: "py_float a1 = Inr w1" "py_float b1 = Inr x1" "py_float c1 = Inr y1"
      "py_float d1 = Inr z1"
    and r2: "latest_data w (int_key IMU_FOREARM_ID) = Some (JArr (a2 # b2 # c2 # d2 # rest2))"
    and f2: "py_float a2 = Inr w2" "py_float b2 = Inr x2" "py_float c2 = Inr y2"
      "py_float d2 = Inr z2"
  shows "\<exists>w' p_bone'.
           modal_v1 hst ''TIMER'' w = Inr (PASS_THROUGH, w')
           \<and> bone_at w' (armature_name w) b = Some p_bone'
           \<and> rotation_mode p_bone' = ''XYZ''
           \<and> map_of (target_angles
                       (to_euler hst ''ZYX'' \<lparr>qw = w1, qx = x1, qy = y1, qz = z1\<rparr>)
                       (to_euler hst ''ZYX'' \<lparr>qw = w2, qx = x2, qy = y2, qz = z2\<rparr>)) j
               = Some (euler_axis a (rotation_euler p_bone'))
           \<and> (rotation_mode p_bone \<in> set euler_modes
                \<longrightarrow> (\<forall>a' \<in> {''X'', ''Y'', ''Z''}. a' \<noteq> a
                       \<longrightarrow> euler_axis a' (rotation_euler p_bone')
                             = euler_axis a' (rotation_euler p_bone))
                    \<and> rotation_quaternion p_bone' = rotation_quaternion p_bone
                    \<and> rotation_axis_angle p_bone' = rotation_axis_angle p_bone)
           \<and> (rotation_mode p_bone = ''QUATERNION''
                \<longrightarrow> (\<forall>a' \<in> {''X'', ''Y'', ''Z''}. a' \<noteq> a
                       \<longrightarrow> euler_axis a' (rotation_euler p_bone')
                             = euler_axis a'
                                 (quat_to_eulO hst ''XYZ''
                                    (normalize_qt hst (rotation_quaternion p_bone)))))"
proof -
  let ?q1 = "\<lparr>qw = w1, qx = x1, qy = y1, qz = z1\<rparr>"
  let ?q2 = "\<lparr>qw = w2, qx = x2, qy = y2, qz = z2\<rparr>"
  let ?ta = "target_angles (to_euler hst ''ZYX'' ?q1) (to_euler hst ''ZYX'' ?q2)"
  from f1 have q1: "raw_quaternion (JArr (a1 # b1 # c1 # d1 # rest1)) = Inr ?q1"
    by (simp add: raw_quaternion_def subscript_def Quaternion_def)
  from f2 have q2: "raw_quaternion (JArr (a2 # b2 # c2 # d2 # rest2)) = Inr ?q2"
    by (simp add: raw_quaternion_def subscript_def Quaternion_def)
  from modal_v1_tick [OF obj bones r1 r2 q1 q2, of hst] obtain bones' where
    r: "modal_v1 hst ''TIMER'' w =
          Inr (PASS_THROUGH,
               w\<lparr>objects := (objects w)(armature_name w \<mapsto> obj\<lparr>pose := Some bones'\<rparr>)\<rparr>)"
    and u: "\<forall>j b a ang. (j, b, a) \<in> set JOINT_MAP \<longrightarrow> map_of ?ta j = Some ang
              \<longrightarrow> bones' b = map_option (joint_write hst a ang) (bones b)"
    by blast
  let ?w' = "w\<lparr>objects := (objects w)(armature_name w \<mapsto> obj\<lparr>pose := Some bones'\<rparr>)\<rparr>"
  from j have "\<exists>ang. map_of ?ta j = Some ang"
    by (auto simp: JOINT_MAP_def target_angles_def Let_def)
  then obtain ang where ang: "map_of ?ta j = Some ang" ..
  from j have ax: "a = ''X'' \<or> a = ''Y'' \<or> a = ''Z''" by (auto simp: JOINT_MAP_def)
  let ?p' = "joint_write hst a ang p_bone"
  from u j ang pb have "bones' b = Some ?p'" by simp
  then have at: "bone_at ?w' (armature_name w) b = Some ?p'" by (simp add: bone_at_def)
  have mode: "rotation_mode ?p' = ''XYZ''"
    by (simp add: joint_write_def set_rotation_mode_def Let_def)
  from ax have "euler_axis a (rotation_euler ?p') = ang"
    by (auto simp: joint_write_def Let_def set_axis_def euler_axis_def)
  with ang have own: "map_of ?ta j = Some (euler_axis a (rotation_euler ?p'))" by simp
  have eul: "rotation_mode p_bone \<in> set euler_modes
                \<longrightarrow> (\<forall>a' \<in> {''X'', ''Y'', ''Z''}. a' \<noteq> a
                       \<longrightarrow> euler_axis a' (rotation_euler ?p')
                             = euler_axis a' (rotation_euler p_bone))
                    \<and> rotation_quaternion ?p' = rotation_quaternion p_bone
                    \<and> rotation_axis_angle ?p' = rotation_axis_angle p_bone"
    using ax
    by (auto simp: joint_write_def set_rotation_mode_def Let_def euler_modes_def
          set_axis_def euler_axis_def)
  have qua: "rotation_mode p_bone = ''QUATERNION''
                \<longrightarrow> (\<forall>a' \<in> {''X'', ''Y'', ''Z''}. a' \<noteq> a
                       \<longrightarrow> euler_axis a' (rotation_euler ?p')
                             = euler_axis a'
                                 (quat_to_eulO hst ''XYZ''
                                    (normalize_qt hst (rotation_quaternion p_bone))))"
    using ax
    by (auto simp: joint_write_def set_rotation_mode_def Let_def euler_modes_def
          set_axis_def euler_axis_def)
  from r at mode own eul qua show ?thesis by blast
qed

theorem joint_update_single_axis_witness:
  "(''Base'', ''UpperArm.008'', ''Z'') \<in> set JOINT_MAP
   \<and> sample_bones_euler ''UpperArm.008'' = Some sample_bone_euler
   \<and> rotation_mode sample_bone_euler = ''XYZ''
   \<and> rotation_euler sample_bone_euler = \<lparr>ex = 1, ey = 2, ez = 3\<rparr>
   \<and> (\<exists>w' p_bone'.
         modal_v1 host_probe ''TIMER'' sample_world_euler = Inr (PASS_THROUGH, w')
         \<and> bone_at w' ''Armature'' ''UpperArm.008'' = Some p_bone'
         \<and> rotation_mode p_bone' = ''XYZ''
         \<and> rotation_euler p_bone' = \<lparr>ex = 1, ey = 2, ez = 4\<rparr>)
   \<and> sample_bones ''UpperArm.008'' = Some sample_bone
   \<and> rotation_mode sample_bone = ''QUATERNION''
   \<and> rotation_euler sample_bone = \<lparr>ex = 1, ey = 2, ez = 3\<rparr>
   \<and> (\<exists>w' p_bone'.
         modal_v1 host_probe ''TIMER'' sample_world_both = Inr (PASS_THROUGH, w')
         \<and> bone_at w' ''Armature'' ''UpperArm.008'' = Some p_bone'
         \<and> rotation_mode p_bone' = ''XYZ''
         \<and> rotation_euler p_bone' = \<lparr>ex = 0, ey = 0, ez = 4\<rparr>)
   \<and> bone_at (reached (modal_v1 host_probe ''TIMER'' sample_world_euler))
        ''Armature'' ''UpperArm.008''
       = Some (sample_bone_euler\<lparr>rotation_euler := \<lparr>ex = 1, ey = 2, ez = 4\<rparr>\<rparr>)
   \<and> bone_at (reached (modal_v1 host_probe ''TIMER'' sample_world_both))
        ''Armature'' ''UpperArm.008''
       = Some (sample_bone\<lparr>rotation_mode := ''XYZ'',
                            rotation_euler := \<lparr>ex = 0, ey = 0, ez = 4\<rparr>\<rparr>)"
proof -
  have j: "(''Base'', ''UpperArm.008'', ''Z'') \<in> set JOINT_MAP" by (simp add: JOINT_MAP_def)
  have pe: "sample_bones_euler ''UpperArm.008'' = Some sample_bone_euler"
    by (simp add: sample_bones_euler_def)
  have pq: "sample_bones ''UpperArm.008'' = Some sample_bone"
    by (simp add: sample_bones_def)
  have me: "rotation_mode sample_bone_euler = ''XYZ''"
    and ee: "rotation_euler sample_bone_euler = \<lparr>ex = 1, ey = 2, ez = 3\<rparr>"
    and mq: "rotation_mode sample_bone = ''QUATERNION''"
    and eq: "rotation_euler sample_bone = \<lparr>ex = 1, ey = 2, ez = 3\<rparr>"
    and qq: "rotation_quaternion sample_bone = \<lparr>qw = 1, qx = 0, qy = 0, qz = 0\<rparr>"
    by (simp_all add: sample_bone_euler_def sample_bone_def)
  from joint_update_single_axis [OF j sample_euler_hyps(1,2) pe sample_euler_hyps(3)
      py_float_JNum py_float_JNum py_float_JNum py_float_JNum sample_euler_hyps(4)
      py_float_JNum py_float_JNum py_float_JNum py_float_JNum, of host_probe]
  obtain w' p' where
    r: "modal_v1 host_probe ''TIMER'' sample_world_euler = Inr (PASS_THROUGH, w')"
    and b: "bone_at w' ''Armature'' ''UpperArm.008'' = Some p'"
    and m: "rotation_mode p' = ''XYZ''"
    and z: "map_of (target_angles
                      (to_euler host_probe ''ZYX'' \<lparr>qw = 1, qx = 2, qy = 3, qz = 4\<rparr>)
                      (to_euler host_probe ''ZYX'' \<lparr>qw = 5, qx = 7, qy = 11, qz = 13\<rparr>)) ''Base''
              = Some (euler_axis ''Z'' (rotation_euler p'))"
    and o: "rotation_mode sample_bone_euler \<in> set euler_modes
                \<longrightarrow> (\<forall>a' \<in> {''X'', ''Y'', ''Z''}. a' \<noteq> ''Z''
                       \<longrightarrow> euler_axis a' (rotation_euler p')
                             = euler_axis a' (rotation_euler sample_bone_euler))"
    unfolding sample_euler_hyps(5) by blast
  from z have "ez (rotation_euler p') = 4"
    by (simp add: target_angles_def Let_def host_probe_def euler_axis_def)
  moreover from o me ee have "ex (rotation_euler p') = 1" "ey (rotation_euler p') = 2"
    by (simp_all add: euler_modes_def euler_axis_def)
  ultimately have e1: "rotation_euler p' = \<lparr>ex = 1, ey = 2, ez = 4\<rparr>"
    by (intro euler_components)
  from joint_update_single_axis [OF j sample_both_hyps(1,2) pq sample_both_hyps(3)
      py_float_JNum py_float_JNum py_float_JNum py_float_JNum sample_both_hyps(4)
      py_float_JNum py_float_JNum py_float_JNum py_float_JNum, of host_probe]
  obtain v' q' where
    r2: "modal_v1 host_probe ''TIMER'' sample_world_both = Inr (PASS_THROUGH, v')"
    and b2: "bone_at v' ''Armature'' ''UpperArm.008'' = Some q'"
    and m2: "rotation_mode q' = ''XYZ''"
    and z2: "map_of (target_angles
                      (to_euler host_probe ''ZYX'' \<lparr>qw = 1, qx = 2, qy = 3, qz = 4\<rparr>)
                      (to_euler host_probe ''ZYX'' \<lparr>qw = 5, qx = 7, qy = 11, qz = 13\<rparr>)) ''Base''
              = Some (euler_axis ''Z'' (rotation_euler q'))"
    and o2: "rotation_mode sample_bone = ''QUATERNION''
                \<longrightarrow> (\<forall>a' \<in> {''X'', ''Y'', ''Z''}. a' \<noteq> ''Z''
                       \<longrightarrow> euler_axis a' (rotation_euler q')
                             = euler_axis a'
                                 (quat_to_eulO host_probe ''XYZ''
                                    (normalize_qt host_probe (rotation_quaternion sample_bone))))"
    unfolding sample_both_hyps(5) by blast
  from z2 have "ez (rotation_euler q') = 4"
    by (simp add: target_angles_def Let_def host_probe_def euler_axis_def)
  moreover from o2 mq qq have "ex (rotation_euler q') = 0" "ey (rotation_euler q') = 0"
    by (simp_all add: euler_axis_def host_probe_def)
  ultimately have e2: "rotation_euler q' = \<lparr>ex = 0, ey = 0, ez = 4\<rparr>"
    by (intro euler_components)
  have direct_euler:
    "bone_at (reached (modal_v1 host_probe ''TIMER'' sample_world_euler))
        ''Armature'' ''UpperArm.008''
       = Some (sample_bone_euler\<lparr>rotation_euler := \<lparr>ex = 1, ey = 2, ez = 4\<rparr>\<rparr>)"
    by (simp add: tick_eval sample_eval)
  have direct_quaternion:
    "bone_at (reached (modal_v1 host_probe ''TIMER'' sample_world_both))
        ''Armature'' ''UpperArm.008''
       = Some (sample_bone\<lparr>rotation_mode := ''XYZ'',
                            rotation_euler := \<lparr>ex = 0, ey = 0, ez = 4\<rparr>\<rparr>)"
    by (simp add: tick_eval sample_eval)
  from j pe me ee r b m e1 pq mq eq r2 b2 m2 e2 direct_euler direct_quaternion
  show ?thesis by blast
qed

text \<open>
  The claim C9 as stated fails for a bone in quaternion mode, the mode of the bones of
  the sample armature: with both sensors at the identity rotation, the tick sets the Z
  component of the Base bone to 0, and the X and Y components, 1 and 2 before the tick,
  are 0 after it, the conversion of the bone's identity quaternion.
\<close>

theorem joint_update_single_axis_counterexample:
  "bone_at sample_world_data ''Armature'' ''UpperArm.008'' = Some sample_bone
   \<and> rotation_mode sample_bone = ''QUATERNION''
   \<and> rotation_euler sample_bone = \<lparr>ex = 1, ey = 2, ez = 3\<rparr>
   \<and> bone_at (reached (modal_v1 host_probe ''TIMER'' sample_world_data))
        ''Armature'' ''UpperArm.008''
       = Some (sample_bone\<lparr>rotation_mode := ''XYZ'',
                            rotation_euler := \<lparr>ex = 0, ey = 0, ez = 0\<rparr>\<rparr>)"
  by (simp add: tick_eval sample_eval)

lemma modal_link_safe:
  assumes obj: "objects w (armature_name w) = Some ob"
    and bones: "pose ob = Some bones"
    and ok: "\<forall>(s, b) \<in> set BONE_MAP. \<forall>v. latest_data w (int_key s) = Some v \<longrightarrow> is_rotation4 v"
  shows "\<exists>w'. modal_link hst ''TIMER'' w = Inr (PASS_THROUGH, w')"
  using modal_link_tick [OF obj bones ok, of hst] by blast

lemma modal_v1_safe:
  assumes obj: "objects w (armature_name w) = Some ob"
    and bones: "pose ob = Some bones"
    and s: "\<forall>v. latest_data w (int_key IMU_SHOULDER_ID) = Some v \<longrightarrow> is_rotation4 v"
    and f: "\<forall>v. latest_data w (int_key IMU_FOREARM_ID) = Some v \<longrightarrow> is_rotation4 v"
  shows "\<exists>w'. modal_v1 hst ''TIMER'' w = Inr (PASS_THROUGH, w')"
proof (cases "latest_data w (int_key IMU_SHOULDER_ID) = None
                \<or> latest_data w (int_key IMU_FOREARM_ID) = None")
  case True
  from modal_v1_gate [OF this] show ?thesis by blast
next
  case False
  then obtain r1 r2 where r1: "latest_data w (int_key IMU_SHOULDER_ID) = Some r1"
    and r2: "latest_data w (int_key IMU_FOREARM_ID) = Some r2" by auto
  from s r1 have "is_rotation4 r1" by blast
  then obtain q1 where q1: "raw_quaternion r1 = Inr q1"
    using is_rotation4_raw_quaternion by blast
  from f r2 have "is_rotation4 r2" by blast
  then obtain q2 where q2: "raw_quaternion r2 = Inr q2"
    using is_rotation4_raw_quaternion by blast
  from modal_v1_tick [OF obj bones r1 r2 q1 q2, of hst] show ?thesis by blast
qed

text \<open>
  C5, as amended. A line changes the store or the count only if, stripped, it is
  brace-delimited and parses to an object with members \<^verbatim>\<open>"id"\<close> and \<^verbatim>\<open>"q"\<close> whose id
  is hashable, and every such line does: the entry for the id becomes the value of
  \<^verbatim>\<open>"q"\<close> as parsed, whatever its shape, and the id need not be an integer. A tick of
  either stage returns without an exception when the object the operator names exists
  and has a pose, and every entry the tick reads (in the Link Stage the entries of the
  sensors of \<open>BONE_MAP\<close>, in the Retarget Stage those of the shoulder and the forearm)
  is a list of exactly four numbers, each an integer, a float or a boolean, an integer
  being smaller in magnitude than \<open>2 ^ 1024 - 2 ^ 970\<close>.
\<close>

theorem receiver_stores_unvalidated:
  "(latest_data (handle_line loads raw w) \<noteq> latest_data w
      \<or> packet_count (handle_line loads raw w) \<noteq> packet_count w
    \<longrightarrow> (\<exists>kvs i q k.
           startswith (strip raw) ''{'' \<and> endswith (strip raw) ''}''
           \<and> loads (strip raw) = Some (JObj kvs)
           \<and> dict_get kvs ''id'' = Some i \<and> dict_get kvs ''q'' = Some q \<and> py_key i = Some k
           \<and> handle_line loads raw w =
               w\<lparr>latest_data := (latest_data w)(k \<mapsto> q), packet_count := packet_count w + 1\<rparr>))
   \<and> (startswith (strip raw) ''{'' \<and> endswith (strip raw) ''}''
        \<and> loads (strip raw) = Some (JObj kvs)
        \<and> dict_get kvs ''id'' = Some i \<and> dict_get kvs ''q'' = Some q \<and> py_key i = Some k
      \<longrightarrow> handle_line loads raw w =
            w\<lparr>latest_data := (latest_data w)(k \<mapsto> q), packet_count := packet_count w + 1\<rparr>)
   \<and> (objects w (armature_name w) = Some ob \<and> pose ob = Some bones
        \<and> (\<forall>(s, b) \<in> set BONE_MAP. \<forall>v. latest_data w (int_key s) = Some v \<longrightarrow> is_rotation4 v)
      \<longrightarrow> (\<exists>w'. modal_link hst ''TIMER'' w = Inr (PASS_THROUGH, w')))
   \<and> (objects w (armature_name w) = Some ob \<and> pose ob = Some bones
        \<and> (\<forall>v. latest_data w (int_key IMU_SHOULDER_ID) = Some v \<longrightarrow> is_rotation4 v)
        \<and> (\<forall>v. latest_data w (int_key IMU_FOREARM_ID) = Some v \<longrightarrow> is_rotation4 v)
      \<longrightarrow> (\<exists>w'. modal_v1 hst ''TIMER'' w = Inr (PASS_THROUGH, w')))
   \<and> (is_rotation4 v \<longleftrightarrow>
        (\<exists>a b c d. v = JArr [a, b, c, d] \<and> is_number a \<and> is_number b \<and> is_number c
           \<and> is_number d))
   \<and> (is_number v \<longleftrightarrow>
        (\<exists>r. v = JNum r) \<or> (\<exists>t. v = JBool t)
        \<or> (\<exists>n. v = JInt n \<and> \<bar>n\<bar> < 2 ^ 1024 - 2 ^ 970))"
proof (intro conjI impI)
  assume "latest_data (handle_line loads raw w) \<noteq> latest_data w
      \<or> packet_count (handle_line loads raw w) \<noteq> packet_count w"
  then show "\<exists>kvs i q k.
           startswith (strip raw) ''{'' \<and> endswith (strip raw) ''}''
           \<and> loads (strip raw) = Some (JObj kvs)
           \<and> dict_get kvs ''id'' = Some i \<and> dict_get kvs ''q'' = Some q \<and> py_key i = Some k
           \<and> handle_line loads raw w =
               w\<lparr>latest_data := (latest_data w)(k \<mapsto> q), packet_count := packet_count w + 1\<rparr>"
    by (rule handle_line_changes)
next
  assume "startswith (strip raw) ''{'' \<and> endswith (strip raw) ''}''
        \<and> loads (strip raw) = Some (JObj kvs)
        \<and> dict_get kvs ''id'' = Some i \<and> dict_get kvs ''q'' = Some q \<and> py_key i = Some k"
  then show "handle_line loads raw w =
            w\<lparr>latest_data := (latest_data w)(k \<mapsto> q), packet_count := packet_count w + 1\<rparr>"
    using handle_line_stores [of raw loads kvs i q k w] by blast
next
  assume "objects w (armature_name w) = Some ob \<and> pose ob = Some bones
        \<and> (\<forall>(s, b) \<in> set BONE_MAP. \<forall>v. latest_data w (int_key s) = Some v \<longrightarrow> is_rotation4 v)"
  then show "\<exists>w'. modal_link hst ''TIMER'' w = Inr (PASS_THROUGH, w')"
    using modal_link_safe [of w ob bones hst] by blast
next
  assume "objects w (armature_name w) = Some ob \<and> pose ob = Some bones
        \<and> (\<forall>v. latest_data w (int_key IMU_SHOULDER_ID) = Some v \<longrightarrow> is_rotation4 v)
        \<and> (\<forall>v. latest_data w (int_key IMU_FOREARM_ID) = Some v \<longrightarrow> is_rotation4 v)"
  then show "\<exists>w'. modal_v1 hst ''TIMER'' w = Inr (PASS_THROUGH, w')"
    using modal_v1_safe [of w ob bones hst] by blast
next
  show "is_rotation4 v \<longleftrightarrow>
        (\<exists>a b c d. v = JArr [a, b, c, d] \<and> is_number a \<and> is_number b \<and> is_number c
           \<and> is_number d)"
  proof
    assume "is_rotation4 v"
    then obtain xs where v: "v = JArr xs" and len: "length xs = 4"
      and num: "list_all is_number xs"
      by (cases v) (auto simp: is_rotation4_def)
    from len obtain a b c d where xs: "xs = [a, b, c, d]"
      by (cases xs; cases "tl xs"; cases "tl (tl xs)"; cases "tl (tl (tl xs))") auto
    with v num show "\<exists>a b c d. v = JArr [a, b, c, d] \<and> is_number a \<and> is_number b
                       \<and> is_number c \<and> is_number d"
      by simp
  next
    assume "\<exists>a b c d. v = JArr [a, b, c, d] \<and> is_number a \<and> is_number b \<and> is_number c
              \<and> is_number d"
    then show "is_rotation4 v" by (auto simp: is_rotation4_def)
  qed
next
  show "is_number v \<longleftrightarrow>
        (\<exists>r. v = JNum r) \<or> (\<exists>t. v = JBool t)
        \<or> (\<exists>n. v = JInt n \<and> \<bar>n\<bar> < 2 ^ 1024 - 2 ^ 970)"
    by (cases v) (auto simp: is_number_def py_float_def)
qed

theorem receiver_stores_unvalidated_witness:
  \<open>packet_count (handle_line json_loads_sample ''{"id": 0, "q": [1, 2, 3]}'' sample_world)
     \<noteq> packet_count sample_world
   \<and> (\<exists>kvs i q k.
         json_loads_sample (strip ''{"id": 0, "q": [1, 2, 3]}'') = Some (JObj kvs)
         \<and> dict_get kvs ''id'' = Some i \<and> dict_get kvs ''q'' = Some q \<and> py_key i = Some k
         \<and> handle_line json_loads_sample ''{"id": 0, "q": [1, 2, 3]}'' sample_world =
             sample_world\<lparr>latest_data := (latest_data sample_world)(k \<mapsto> q),
                          packet_count := packet_count sample_world + 1\<rparr>)
   \<and> handle_line json_loads_sample ''{"id": 0, "q": [1, 2, 3]}'' sample_world =
       sample_world\<lparr>latest_data := (latest_data sample_world)(KNum 0 \<mapsto> JArr [JInt 1, JInt 2, JInt 3]),
                    packet_count := packet_count sample_world + 1\<rparr>
   \<and> objects sample_world_data (armature_name sample_world_data) = Some sample_rig
   \<and> pose sample_rig = Some sample_bones
   \<and> is_rotation4 (JArr [JNum 1, JNum 0, JNum 0, JNum 0])
   \<and> (\<exists>w'. modal_link host_probe ''TIMER'' sample_world_data = Inr (PASS_THROUGH, w'))
   \<and> (\<exists>w'. modal_v1 host_probe ''TIMER'' sample_world_data = Inr (PASS_THROUGH, w'))\<close>
proof -
  let ?raw = \<open>''{"id": 0, "q": [1, 2, 3]}''\<close>
  let ?kvs = "[(''id'', JInt 0), (''q'', JArr [JInt 1, JInt 2, JInt 3])]"
  have st: "strip ?raw = ?raw" by (simp add: strip_def py_isspace_def)
  have parse: "startswith (strip ?raw) ''{'' \<and> endswith (strip ?raw) ''}''
        \<and> json_loads_sample (strip ?raw) = Some (JObj ?kvs)
        \<and> dict_get ?kvs ''id'' = Some (JInt 0)
        \<and> dict_get ?kvs ''q'' = Some (JArr [JInt 1, JInt 2, JInt 3])
        \<and> py_key (JInt 0) = Some (KNum 0)"
    unfolding st by (simp add: startswith_def endswith_def json_loads_sample_def dict_get_def)
  note inst = receiver_stores_unvalidated [where loads = json_loads_sample and raw = ?raw
      and w = sample_world and kvs = ?kvs and i = "JInt 0"
      and q = "JArr [JInt 1, JInt 2, JInt 3]" and k = "KNum 0"]
  from inst parse have stored:
    "handle_line json_loads_sample ?raw sample_world =
       sample_world\<lparr>latest_data := (latest_data sample_world)(KNum 0 \<mapsto> JArr [JInt 1, JInt 2, JInt 3]),
                    packet_count := packet_count sample_world + 1\<rparr>"
    by blast
  then have changed: "packet_count (handle_line json_loads_sample ?raw sample_world)
     \<noteq> packet_count sample_world"
    by simp
  with inst have only: "\<exists>kvs i q k.
         startswith (strip ?raw) ''{'' \<and> endswith (strip ?raw) ''}''
         \<and> json_loads_sample (strip ?raw) = Some (JObj kvs)
         \<and> dict_get kvs ''id'' = Some i \<and> dict_get kvs ''q'' = Some q \<and> py_key i = Some k
         \<and> handle_line json_loads_sample ?raw sample_world =
             sample_world\<lparr>latest_data := (latest_data sample_world)(k \<mapsto> q),
                          packet_count := packet_count sample_world + 1\<rparr>"
    by blast
  have rot: "is_rotation4 (JArr [JNum 1, JNum 0, JNum 0, JNum 0])"
    by (simp add: is_rotation4_def is_number_def py_float_def)
  have ok: "\<forall>(s, b) \<in> set BONE_MAP. \<forall>v. latest_data sample_world_data (int_key s) = Some v
              \<longrightarrow> is_rotation4 v"
    using rot by (simp add: BONE_MAP_def sample_world_data_def sample_data_def int_key_def)
  have oks: "\<forall>v. latest_data sample_world_data (int_key IMU_SHOULDER_ID) = Some v \<longrightarrow> is_rotation4 v"
    and okf: "\<forall>v. latest_data sample_world_data (int_key IMU_FOREARM_ID) = Some v \<longrightarrow> is_rotation4 v"
    using rot
    by (simp_all add: sample_world_data_def sample_data_def int_key_def IMU_SHOULDER_ID_def
          IMU_FOREARM_ID_def)
  note inst2 = receiver_stores_unvalidated [where w = sample_world_data and ob = sample_rig
      and bones = sample_bones and hst = host_probe]
  from inst2 sample_tick_hyps(1,2) ok
  have link: "\<exists>w'. modal_link host_probe ''TIMER'' sample_world_data = Inr (PASS_THROUGH, w')"
    by blast
  from inst2 sample_tick_hyps(1,2) oks okf
  have retarget: "\<exists>w'. modal_v1 host_probe ''TIMER'' sample_world_data = Inr (PASS_THROUGH, w')"
    by blast
  from changed only stored sample_tick_hyps(1,2) rot link retarget show ?thesis by blast
qed

end
